theory Spec2Isabelle
  imports Main "HOL-Library.Char_ord" "HOL-Library.List_Lexorder"
begin

section \<open>Stock ledger of \<open>backend.py\<close>\<close>

text \<open>
  The backend keeps three SQLite tables that matter for stock: \<open>prodotti\<close>,
  \<open>colori_prodotti\<close> and \<open>taglie_prodotti\<close>. A table is a list of rows in rowid
  order; a nullable column is an \<open>option\<close>. Every function of the backend opens its own
  connection, runs its statements and commits, so a function is a map from the database
  before the call to the database after it, together with what it returns or raises.
  The reading of \<open>datetime('now')\<close> is the parameter \<open>now\<close>.

  Strings are byte strings. Python's integers are unbounded, an INTEGER of SQLite has
  64 bits: the section on numbers says how a numeric column is read here.
\<close>

subsection \<open>Strings\<close>

text \<open>Python's \<open>str.isspace\<close> on the ASCII range, and \<open>str.strip()\<close>.\<close>

definition isspace :: "char \<Rightarrow> bool" where
  "isspace ch = (let n = (of_char ch :: nat) in (9 \<le> n \<and> n \<le> 13) \<or> (28 \<le> n \<and> n \<le> 32))"

definition strip :: "string \<Rightarrow> string" where
  "strip s = rev (dropWhile isspace (rev (dropWhile isspace s)))"

text \<open>Python's \<open>str.upper()\<close> on ASCII letters.\<close>

definition upper_char :: "char \<Rightarrow> char" where
  "upper_char ch = (let n = (of_char ch :: nat) in if 97 \<le> n \<and> n \<le> 122 then char_of (n - 32) else ch)"

definition upper :: "string \<Rightarrow> string" where
  "upper s = map upper_char s"

text \<open>SQLite's \<open>TRIM(X)\<close> removes spaces only; \<open>COLLATE NOCASE\<close> folds the 26 upper
  case ASCII letters to lower case before comparing bytes.\<close>

definition sql_trim :: "string \<Rightarrow> string" where
  "sql_trim s = rev (dropWhile (\<lambda>ch. ch = CHR '' '') (rev (dropWhile (\<lambda>ch. ch = CHR '' '') s)))"

definition nocase_char :: "char \<Rightarrow> char" where
  "nocase_char ch = (let n = (of_char ch :: nat) in if 65 \<le> n \<and> n \<le> 90 then char_of (n + 32) else ch)"

definition nocase :: "string \<Rightarrow> string" where
  "nocase s = map nocase_char s"

text \<open>\<open>(x or "")\<close> for a string that may be \<open>None\<close>, and \<open>(x or 0)\<close>, which is also
  SQL's \<open>COALESCE(x, 0)\<close>, for an integer that may be \<open>NULL\<close>.\<close>

definition or_empty :: "string option \<Rightarrow> string" where
  "or_empty x = (case x of None \<Rightarrow> [] | Some s \<Rightarrow> s)"

definition or_zero :: "int option \<Rightarrow> int" where
  "or_zero x = (case x of None \<Rightarrow> 0 | Some n \<Rightarrow> n)"

text \<open>The expression \<open>(colore or "").strip() or "DEFAULT"\<close>, which opens every stock
  function.\<close>

definition colore_o_default :: "string option \<Rightarrow> string" where
  "colore_o_default colore = (let c = strip (or_empty colore) in if c = [] then ''DEFAULT'' else c)"

subsection \<open>Tables\<close>

text \<open>Of \<open>prodotti\<close> only the columns that the stock functions read or write are kept:
  \<open>codice\<close> (the primary key), the legacy single colour \<open>colore\<close>, \<open>tipo_taglie\<close>,
  \<open>venduti\<close> and \<open>updated_at\<close>.\<close>

record prodotto =
  codice :: string
  colore_legacy :: "string option"
  tipo_taglie :: "string option"
  venduti :: "int option"
  updated_at :: "string option"

record colore_prodotto =
  cp_codice_prodotto :: string
  cp_colore :: string

record taglia_prodotto =
  codice_prodotto :: string
  colore :: "string option"
  taglia :: string
  quantita :: "int option"

record database =
  prodotti :: "prodotto list"
  colori_prodotti :: "colore_prodotto list"
  taglie_prodotti :: "taglia_prodotto list"

text \<open>What a function raises. \<open>ValueError\<close> carries its message: the three fixed texts
  and the formatted one, which holds the two amounts.\<close>

datatype messaggio =
    Quantita_carico_minima
  | Quantita_scarico_minima
  | Taglia_non_trovata
  | Stock_insufficiente int int

datatype errore = ValueError messaggio | UnboundLocalError | OverflowError

subsection \<open>Numbers\<close>

text \<open>An INTEGER of SQLite is a signed 64-bit integer. The \<open>sqlite3\<close> module raises
  \<open>OverflowError\<close> when it binds a Python integer outside that range; the statement is
  then not run, the function is left without a commit, and what it wrote before is lost
  with its connection.\<close>

definition int64 :: "int \<Rightarrow> bool" where
  "int64 n = (- (2 ^ 63) \<le> n \<and> n \<le> 2 ^ 63 - 1)"

text \<open>When the sum of two INTEGERs leaves the 64-bit range, SQLite converts both to
  doubles, adds them as doubles and stores the sum as a REAL. Python reads a REAL as a
  float, and \<open>int()\<close> of a float is its exact value. \<open>double_vicino n\<close> is the double
  nearest to the integer \<open>n\<close>, a tie going to the even significand: the result of C's conversion
  of an integer, and of the IEEE addition of two doubles whose exact sum is \<open>n\<close>. A
  double has 53 significant bits; \<open>lunghezza_bit\<close> counts the bits of a positive integer.\<close>

function lunghezza_bit :: "int \<Rightarrow> nat" where
  "lunghezza_bit n = (if n \<le> 0 then 0 else Suc (lunghezza_bit (n div 2)))"
  by auto

termination
  by (relation "measure nat") auto

declare lunghezza_bit.simps [simp del]

definition double_vicino :: "int \<Rightarrow> int" where
  "double_vicino n =
     (let a = \<bar>n\<bar>;
          l = lunghezza_bit a
      in if l \<le> 53 then n
         else
           let u = 2 ^ (l - 53);
               q = a div u;
               r = a mod u;
               q' = (if u < 2 * r \<or> (2 * r = u \<and> q mod 2 = 1) then q + 1 else q)
           in sgn n * (q' * u))"

text \<open>A numeric column is modelled by the integer that Python reads from it with
  \<open>int(x or 0)\<close>: a value within the 64-bit range is an INTEGER, a value beyond it is a
  REAL with that value. The backend adds only quantities of at least 1, so the REALs it
  produces are at least \<open>2^63\<close>; a column of INTEGER affinity never keeps a REAL whose
  value is an integer strictly within the range. \<open>somma_sqlite v k\<close> is SQLite's
  \<open>v + k\<close> for a stored value \<open>v\<close> and a bound 64-bit integer \<open>k\<close>: the exact sum when
  \<open>v\<close> is an INTEGER and the sum fits, and the sum of the two doubles otherwise.\<close>

definition somma_sqlite :: "int \<Rightarrow> int \<Rightarrow> int" where
  "somma_sqlite v k =
     (if int64 v \<and> int64 (v + k) then v + k
      else double_vicino (double_vicino v + double_vicino k))"

subsection \<open>Statements shared by the functions\<close>

text \<open>\<open>WHERE codice_prodotto=? AND colore=? AND taglia=?\<close>: a row whose colour is
  \<open>NULL\<close> never matches.\<close>

definition cella :: "string \<Rightarrow> string \<Rightarrow> string \<Rightarrow> taglia_prodotto \<Rightarrow> bool" where
  "cella cod col t r = (codice_prodotto r = cod \<and> colore r = Some col \<and> taglia r = t)"

text \<open>\<open>SELECT quantita FROM taglie_prodotti WHERE ...\<close> followed by \<open>fetchone()\<close>:
  the first matching row, if any.\<close>

definition select_quantita :: "taglia_prodotto list \<Rightarrow> string \<Rightarrow> string \<Rightarrow> string \<Rightarrow> int option option" where
  "select_quantita ts cod col t = (case filter (cella cod col t) ts of [] \<Rightarrow> None | r # _ \<Rightarrow> Some (quantita r))"

text \<open>\<open>UPDATE prodotti SET updated_at=datetime('now') WHERE codice=?\<close>.\<close>

definition tocca_prodotto :: "string \<Rightarrow> string \<Rightarrow> prodotto list \<Rightarrow> prodotto list" where
  "tocca_prodotto now cod ps = map (\<lambda>p. if codice p = cod then p\<lparr>updated_at := Some now\<rparr> else p) ps"

text \<open>\<open>INSERT OR IGNORE INTO colori_prodotti(codice_prodotto, colore) VALUES(?,?)\<close>
  under \<open>UNIQUE(codice_prodotto, colore)\<close>.\<close>

definition insert_or_ignore_colore :: "string \<Rightarrow> string \<Rightarrow> colore_prodotto list \<Rightarrow> colore_prodotto list" where
  "insert_or_ignore_colore cod col cs =
     (if \<exists>r \<in> set cs. cp_codice_prodotto r = cod \<and> cp_colore r = col then cs
      else cs @ [\<lparr>cp_codice_prodotto = cod, cp_colore = col\<rparr>])"

text \<open>\<open>get_prodotto\<close>: the row of the product, if there is one.\<close>

definition get_prodotto :: "database \<Rightarrow> string \<Rightarrow> prodotto option" where
  "get_prodotto db cod = find (\<lambda>p. codice p = cod) (prodotti db)"

subsection \<open>Loading and selling\<close>

text \<open>Both functions raise a \<open>ValueError\<close> before their first write, and an
  \<open>OverflowError\<close> before their commit, so the database that comes with an error is the
  one they were called on. \<open>carica_stock_colore\<close> binds \<open>qty\<close> in its UPDATE, which adds
  it in SQLite to every row of the cell, and reads the new quantity back with a second
  SELECT, which finds a row because the first one did. \<open>scarica_vendita_colore\<close> computes
  the new quantity in Python from the first row and binds it in the UPDATE of every row
  of the cell, then binds \<open>qty\<close> in the UPDATE that adds it in SQLite to \<open>venduti\<close>.\<close>

definition carica_stock_colore ::
  "string \<Rightarrow> database \<Rightarrow> string \<Rightarrow> string option \<Rightarrow> string \<Rightarrow> int \<Rightarrow> (errore + int) \<times> database" where
  "carica_stock_colore now db cod colore0 t qty =
     (if qty < 1 then (Inl (ValueError Quantita_carico_minima), db)
      else let col = colore_o_default colore0 in
        case select_quantita (taglie_prodotti db) cod col t of
          None \<Rightarrow> (Inl (ValueError Taglia_non_trovata), db)
        | Some _ \<Rightarrow>
            if int64 qty then
              let ts = map (\<lambda>r. if cella cod col t r
                                  then r\<lparr>quantita := Some (somma_sqlite (or_zero (quantita r)) qty)\<rparr>
                                  else r)
                           (taglie_prodotti db);
                  ps = tocca_prodotto now cod (prodotti db);
                  new_q = (case select_quantita ts cod col t of None \<Rightarrow> 0 | Some q \<Rightarrow> or_zero q)
              in (Inr new_q, db\<lparr>prodotti := ps, taglie_prodotti := ts\<rparr>)
            else (Inl OverflowError, db))"

definition scarica_vendita_colore ::
  "string \<Rightarrow> database \<Rightarrow> string \<Rightarrow> string option \<Rightarrow> string \<Rightarrow> int \<Rightarrow> (errore + int) \<times> database" where
  "scarica_vendita_colore now db cod colore0 t qty =
     (if qty < 1 then (Inl (ValueError Quantita_scarico_minima), db)
      else let col = colore_o_default colore0 in
        case select_quantita (taglie_prodotti db) cod col t of
          None \<Rightarrow> (Inl (ValueError Taglia_non_trovata), db)
        | Some row \<Rightarrow>
            let attuale = or_zero row in
            if attuale < qty then (Inl (ValueError (Stock_insufficiente attuale qty)), db)
            else
              let nuova_q = attuale - qty in
              if int64 nuova_q \<and> int64 qty then
                let ts = map (\<lambda>r. if cella cod col t r then r\<lparr>quantita := Some nuova_q\<rparr> else r)
                             (taglie_prodotti db);
                    ps = map (\<lambda>p. if codice p = cod
                                   then p\<lparr>venduti := Some (somma_sqlite (or_zero (venduti p)) qty),
                                          updated_at := Some now\<rparr>
                                   else p)
                             (prodotti db)
                in (Inr nuova_q, db\<lparr>prodotti := ps, taglie_prodotti := ts\<rparr>)
              else (Inl OverflowError, db))"

subsection \<open>Size schemes and reconciliation\<close>

text \<open>\<open>_taglie_for_tipo\<close>: the letter sizes for the tag \<open>LETTERE\<close> in any case, the
  numeric sizes for every other tag, also a missing one.\<close>

definition taglie_for_tipo :: "string option \<Rightarrow> string list" where
  "taglie_for_tipo tipo =
     (if upper (or_empty tipo) = ''LETTERE'' then [''XS'', ''S'', ''M'', ''L'', ''XL'']
      else [''38'', ''40'', ''42'', ''44'', ''46'', ''48'', ''50'', ''52''])"

text \<open>The loop of \<open>ensure_stock_colore\<close>: for every size, count the rows of the cell and
  insert one with quantity 0 when there is none.\<close>

fun inserisci_mancanti :: "string \<Rightarrow> string \<Rightarrow> string list \<Rightarrow> taglia_prodotto list \<Rightarrow> taglia_prodotto list" where
  "inserisci_mancanti cod col [] ts = ts"
| "inserisci_mancanti cod col (t # rest) ts =
     inserisci_mancanti cod col rest
       (if length (filter (cella cod col t) ts) = 0
        then ts @ [\<lparr>codice_prodotto = cod, colore = Some col, taglia = t, quantita = Some 0\<rparr>]
        else ts)"

definition ensure_stock_colore :: "string \<Rightarrow> database \<Rightarrow> string \<Rightarrow> string option \<Rightarrow> string option \<Rightarrow> database" where
  "ensure_stock_colore now db cod colore0 tipo =
     (let col = colore_o_default colore0;
          taglie = taglie_for_tipo tipo;
          cs = insert_or_ignore_colore cod col (colori_prodotti db);
          ts = inserisci_mancanti cod col taglie (taglie_prodotti db);
          ps = tocca_prodotto now cod (prodotti db)
      in \<lparr>prodotti = ps, colori_prodotti = cs, taglie_prodotti = ts\<rparr>)"

text \<open>\<open>SELECT colore FROM colori_prodotti WHERE codice_prodotto=? ORDER BY colore COLLATE
  NOCASE\<close>. Colours that are equal under NOCASE keep their table order here; SQLite leaves
  their order open.\<close>

definition select_colori :: "colore_prodotto list \<Rightarrow> string \<Rightarrow> string list" where
  "select_colori cs cod = sort_key nocase (map cp_colore (filter (\<lambda>r. cp_codice_prodotto r = cod) cs))"

text \<open>\<open>reset_stock_prodotto\<close> deletes the stock rows of the product, commits, and calls
  \<open>ensure_stock_colore\<close> for every registered colour; \<open>now\<close> is the clock of the last of
  these calls, whose write of \<open>updated_at\<close> is the one that remains.\<close>

definition reset_stock_prodotto :: "string \<Rightarrow> database \<Rightarrow> string \<Rightarrow> string option \<Rightarrow> database" where
  "reset_stock_prodotto now db cod tipo =
     (let ts = filter (\<lambda>r. codice_prodotto r \<noteq> cod) (taglie_prodotti db);
          colori = select_colori (colori_prodotti db) cod
      in foldl (\<lambda>d c. ensure_stock_colore now d cod (Some c) tipo) (db\<lparr>taglie_prodotti := ts\<rparr>) colori)"

subsection \<open>Setting quantities\<close>

text \<open>\<open>aggiorna_taglia_colore\<close> writes \<open>int(nuova_quantita)\<close> to every row of the cell.
  It returns nothing; when the quantity does not fit in 64 bits the bind raises
  \<open>OverflowError\<close> and the database stays as it was.\<close>

definition aggiorna_taglia_colore :: "string \<Rightarrow> database \<Rightarrow> string \<Rightarrow> string option \<Rightarrow> string \<Rightarrow> int \<Rightarrow> database" where
  "aggiorna_taglia_colore now db cod colore0 t nuova_quantita =
     (let col = colore_o_default colore0 in
      if int64 nuova_quantita then
        let ts = map (\<lambda>r. if cella cod col t r then r\<lparr>quantita := Some nuova_quantita\<rparr> else r)
                     (taglie_prodotti db);
            ps = tocca_prodotto now cod (prodotti db)
        in db\<lparr>prodotti := ps, taglie_prodotti := ts\<rparr>
      else db)"

text \<open>The dictionary of \<open>set_stock_colore\<close> is the list of its items in iteration order.
  A value is the outcome of \<open>int(qta)\<close>: \<open>None\<close> when the conversion raises, which the
  function turns into 0. \<open>cur.rowcount == 0\<close> holds when the UPDATE matched no row. The
  loop gives \<open>None\<close> when the bind of a quantity that does not fit in 64 bits raises
  \<open>OverflowError\<close>: the function is then left before its commit, and the database stays
  as it was.\<close>

fun set_stock_righe :: "string \<Rightarrow> string \<Rightarrow> (string option \<times> int option) list \<Rightarrow> taglia_prodotto list \<Rightarrow> taglia_prodotto list option" where
  "set_stock_righe cod col [] ts = Some ts"
| "set_stock_righe cod col ((taglia0, qta) # rest) ts =
     (let t = strip (or_empty taglia0) in
      if t = [] then set_stock_righe cod col rest ts
      else
        let q0 = (case qta of None \<Rightarrow> 0 | Some n \<Rightarrow> n);
            q = (if q0 < 0 then 0 else q0)
        in if int64 q then
             if length (filter (cella cod col t) ts) = 0
             then set_stock_righe cod col rest
                    (ts @ [\<lparr>codice_prodotto = cod, colore = Some col, taglia = t, quantita = Some q\<rparr>])
             else set_stock_righe cod col rest
                    (map (\<lambda>r. if cella cod col t r then r\<lparr>quantita := Some q\<rparr> else r) ts)
           else None)"

definition set_stock_colore :: "database \<Rightarrow> string \<Rightarrow> string option \<Rightarrow> (string option \<times> int option) list \<Rightarrow> database" where
  "set_stock_colore db cod colore0 mappa_taglie_quantita =
     (case set_stock_righe cod (colore_o_default colore0) mappa_taglie_quantita (taglie_prodotti db) of
        None \<Rightarrow> db
      | Some ts \<Rightarrow> db\<lparr>taglie_prodotti := ts\<rparr>)"

subsection \<open>Colours\<close>

text \<open>\<open>lista_colori\<close> reads the local name \<open>colori\<close> in the very statement that first
  assigns it. Python finds the name unbound and raises \<open>UnboundLocalError\<close>; the
  \<open>return rows\<close> after it is never reached.\<close>

definition lista_colori :: "database \<Rightarrow> string \<Rightarrow> errore + string list" where
  "lista_colori db cod =
     (let rows = select_colori (colori_prodotti db) cod;
          colori_locale = (None :: string list option)
      in case colori_locale of
           None \<Rightarrow> Inl UnboundLocalError
         | Some colori \<Rightarrow> (let colori2 = filter (\<lambda>c. c \<noteq> ''DEFAULT'') colori in Inr rows))"

text \<open>\<open>aggiungi_colore\<close> registers the trimmed label, unless it is empty.
  \<open>rinomina_colore\<close> renames the registration when the new label is not registered yet and
  deletes the old registration when it is; in both cases it then moves the stock rows of
  the old label to the new one and writes the modification time.\<close>

definition aggiungi_colore :: "database \<Rightarrow> string \<Rightarrow> string option \<Rightarrow> database" where
  "aggiungi_colore db cod colore0 =
     (let col = strip (or_empty colore0) in
      if col = [] then db
      else db\<lparr>colori_prodotti := insert_or_ignore_colore cod col (colori_prodotti db)\<rparr>)"

definition rinomina_colore :: "string \<Rightarrow> database \<Rightarrow> string \<Rightarrow> string option \<Rightarrow> string option \<Rightarrow> database" where
  "rinomina_colore now db cod vecchio0 nuovo0 =
     (let vecchio = strip (or_empty vecchio0);
          nuovo = strip (or_empty nuovo0)
      in if vecchio = [] \<or> nuovo = [] then db
         else
           let exists_new =
                 (length (filter (\<lambda>r. cp_codice_prodotto r = cod \<and> cp_colore r = nuovo) (colori_prodotti db)) > 0);
               cs = (if \<not> exists_new
                     then map (\<lambda>r. if cp_codice_prodotto r = cod \<and> cp_colore r = vecchio
                                    then r\<lparr>cp_colore := nuovo\<rparr> else r)
                              (colori_prodotti db)
                     else filter (\<lambda>r. \<not> (cp_codice_prodotto r = cod \<and> cp_colore r = vecchio))
                                 (colori_prodotti db));
               ts = map (\<lambda>r. if codice_prodotto r = cod \<and> colore r = Some vecchio
                              then r\<lparr>colore := Some nuovo\<rparr> else r)
                        (taglie_prodotti db);
               ps = tocca_prodotto now cod (prodotti db)
           in \<lparr>prodotti = ps, colori_prodotti = cs, taglie_prodotti = ts\<rparr>)"

subsection \<open>Migration of the legacy colour\<close>

text \<open>\<open>colore IS NULL OR TRIM(colore) = ''\<close>.\<close>

definition colore_vuoto :: "string option \<Rightarrow> bool" where
  "colore_vuoto c = (case c of None \<Rightarrow> True | Some s \<Rightarrow> sql_trim s = [])"

text \<open>The migration block of \<open>init_database\<close> is one \<open>try\<close> around the whole loop over
  the products, with \<open>except: pass\<close>, followed by the commit. A statement can fail only
  for a reason outside the tables (the store refuses it: a full disk, an I/O error).
  \<open>guasto\<close> says, for each product code, whether one of its two statements raises, and
  what SQLite then undoes: the failing statement alone (\<open>Guasto_insert\<close>,
  \<open>Guasto_update\<close>), so that the statements run before it are committed, or the whole
  transaction (\<open>Guasto_annulla\<close>, for either statement), so that the commit finds nothing
  to write. In both cases the exception leaves the loop and is swallowed. The loop gives
  \<open>None\<close> when the transaction has been rolled back.\<close>

datatype guasto = Nessun_guasto | Guasto_insert | Guasto_update | Guasto_annulla

fun migra_prodotti ::
  "(string \<Rightarrow> guasto) \<Rightarrow> (string \<times> string) list \<Rightarrow> colore_prodotto list \<Rightarrow> taglia_prodotto list
     \<Rightarrow> (colore_prodotto list \<times> taglia_prodotto list) option" where
  "migra_prodotti g [] cs ts = Some (cs, ts)"
| "migra_prodotti g ((cod, legacy_col) # rest) cs ts =
     (let col = colore_o_default (Some legacy_col) in
      case g cod of
        Guasto_insert \<Rightarrow> Some (cs, ts)
      | Guasto_update \<Rightarrow> Some (insert_or_ignore_colore cod col cs, ts)
      | Guasto_annulla \<Rightarrow> None
      | Nessun_guasto \<Rightarrow>
          migra_prodotti g rest
            (insert_or_ignore_colore cod col cs)
            (map (\<lambda>r. if codice_prodotto r = cod \<and> colore_vuoto (colore r)
                       then r\<lparr>colore := Some col\<rparr> else r) ts))"

text \<open>The block alone, from the tables it finds: \<open>SELECT codice, COALESCE(colore,'') FROM
  prodotti\<close>, the loop, and the commit. After a rollback the tables are those the
  transaction started from.\<close>

definition migrazione_dati :: "(string \<Rightarrow> guasto) \<Rightarrow> database \<Rightarrow> database" where
  "migrazione_dati g db =
     (let righe = map (\<lambda>p. (codice p, or_empty (colore_legacy p))) (prodotti db)
      in case migra_prodotti g righe (colori_prodotti db) (taglie_prodotti db) of
           None \<Rightarrow> db
         | Some (cs, ts) \<Rightarrow> db\<lparr>colori_prodotti := cs, taglie_prodotti := ts\<rparr>)"



subsection \<open>Reading the tables\<close>

text \<open>The quantity of a cell as \<open>carica_stock_colore\<close> and \<open>scarica_vendita_colore\<close>
  read it, \<open>int(row[0] or 0)\<close> of the first row of the cell; the sold counter in the
  row of a product, read in the same way.\<close>

definition quantita_cella :: "database \<Rightarrow> string \<Rightarrow> string \<Rightarrow> string \<Rightarrow> int option" where
  "quantita_cella db cod col t = map_option or_zero (select_quantita (taglie_prodotti db) cod col t)"

definition venduti_prodotto :: "database \<Rightarrow> string \<Rightarrow> int option" where
  "venduti_prodotto db cod = map_option (\<lambda>p. or_zero (venduti p)) (get_prodotto db cod)"

text \<open>The sizes of the stock rows of a colour (the rows of \<open>get_taglie_colore\<close>), the
  colours registered for a product, and the stock rows of a product.\<close>

definition taglie_colore :: "database \<Rightarrow> string \<Rightarrow> string \<Rightarrow> string set" where
  "taglie_colore db cod col =
     set (map taglia (filter (\<lambda>r. codice_prodotto r = cod \<and> colore r = Some col) (taglie_prodotti db)))"

definition colori_registrati :: "database \<Rightarrow> string \<Rightarrow> string set" where
  "colori_registrati db cod =
     set (map cp_colore (filter (\<lambda>r. cp_codice_prodotto r = cod) (colori_prodotti db)))"

definition righe_prodotto :: "database \<Rightarrow> string \<Rightarrow> taglia_prodotto list" where
  "righe_prodotto db cod = filter (\<lambda>r. codice_prodotto r = cod) (taglie_prodotti db)"

text \<open>No stock row holds a negative quantity.\<close>

definition quantita_non_negative :: "database \<Rightarrow> bool" where
  "quantita_non_negative db = (\<forall>r \<in> set (taglie_prodotti db). 0 \<le> or_zero (quantita r))"

text \<open>Every registered colour is its own normal form.\<close>

definition colori_normali :: "database \<Rightarrow> bool" where
  "colori_normali db = (\<forall>r \<in> set (colori_prodotti db). colore_o_default (Some (cp_colore r)) = cp_colore r)"

text \<open>A stock colour is in normal form when it is not \<open>NULL\<close> and is what
  \<open>colore_o_default\<close> makes of it; the rows the backend writes have such colours.\<close>

definition colore_normale :: "string option \<Rightarrow> bool" where
  "colore_normale c = (case c of None \<Rightarrow> False | Some s \<Rightarrow> colore_o_default (Some s) = s)"

definition colori_stock_normali :: "database \<Rightarrow> bool" where
  "colori_stock_normali db = (\<forall>r \<in> set (taglie_prodotti db). colore_normale (colore r))"

subsection \<open>Example data\<close>

text \<open>A product with numeric sizes, two real colours and the placeholder colour, and one
  stock row of size 42 for each colour.\<close>

definition db_esempio :: database where
  "db_esempio =
     \<lparr>prodotti =
        [\<lparr>codice = ''P1'', colore_legacy = Some [], tipo_taglie = Some ''NUMERI'',
          venduti = Some 0, updated_at = None\<rparr>],
      colori_prodotti =
        [\<lparr>cp_codice_prodotto = ''P1'', cp_colore = ''DEFAULT''\<rparr>,
         \<lparr>cp_codice_prodotto = ''P1'', cp_colore = ''Rosso''\<rparr>,
         \<lparr>cp_codice_prodotto = ''P1'', cp_colore = ''Blu''\<rparr>],
      taglie_prodotti =
        [\<lparr>codice_prodotto = ''P1'', colore = Some ''DEFAULT'', taglia = ''42'', quantita = Some 7\<rparr>,
         \<lparr>codice_prodotto = ''P1'', colore = Some ''Rosso'', taglia = ''42'', quantita = Some 3\<rparr>,
         \<lparr>codice_prodotto = ''P1'', colore = Some ''Blu'', taglia = ''42'', quantita = Some 2\<rparr>]\<rparr>"

text \<open>A database from before the colour tables: two products with the legacy colour
  column, no registered colour, and stock rows without a colour; one row of the first
  product already carries a colour.\<close>

definition db_legacy :: database where
  "db_legacy =
     \<lparr>prodotti =
        [\<lparr>codice = ''P1'', colore_legacy = Some ''Rosso'', tipo_taglie = Some ''NUMERI'',
          venduti = Some 0, updated_at = None\<rparr>,
         \<lparr>codice = ''P2'', colore_legacy = None, tipo_taglie = Some ''LETTERE'',
          venduti = None, updated_at = None\<rparr>],
      colori_prodotti = [],
      taglie_prodotti =
        [\<lparr>codice_prodotto = ''P1'', colore = None, taglia = ''42'', quantita = Some 3\<rparr>,
         \<lparr>codice_prodotto = ''P1'', colore = Some '' '', taglia = ''44'', quantita = Some 1\<rparr>,
         \<lparr>codice_prodotto = ''P1'', colore = Some ''Verde'', taglia = ''42'', quantita = Some 4\<rparr>,
         \<lparr>codice_prodotto = ''P2'', colore = Some [], taglia = ''M'', quantita = Some 2\<rparr>]\<rparr>"

text \<open>The example with the sold counter at the largest INTEGER; the example after two
  loads of 9223372036854775807 on the cell of \<open>Blu\<close>; and the example after
  \<open>aggiorna_taglia_colore\<close> has written \<open>-5\<close> to the cell of \<open>Blu\<close>.\<close>

definition db_venduti_max :: database where
  "db_venduti_max =
     db_esempio\<lparr>prodotti := map (\<lambda>p. p\<lparr>venduti := Some 9223372036854775807\<rparr>) (prodotti db_esempio)\<rparr>"

definition db_due_carichi :: database where
  "db_due_carichi =
     snd (carica_stock_colore ''t0''
            (snd (carica_stock_colore ''t0'' db_esempio ''P1'' (Some ''Blu'') ''42'' 9223372036854775807))
            ''P1'' (Some ''Blu'') ''42'' 9223372036854775807)"

definition db_negativo :: database where
  "db_negativo = aggiorna_taglia_colore ''t0'' db_esempio ''P1'' (Some ''Blu'') ''42'' (- 5)"


text \<open>A pass in which no statement fails; one in which the UPDATE for product \<open>P2\<close>
  fails and SQLite undoes that statement only; one in which a statement for \<open>P2\<close> fails
  and SQLite rolls the transaction back.\<close>

definition nessun_guasto :: "string \<Rightarrow> guasto" where
  "nessun_guasto cod = Nessun_guasto"



section \<open>Properties\<close>

subsection \<open>Trimming\<close>

text \<open>What \<open>strip\<close> returns has no white space at either end, so stripping it again
  changes nothing, and SQLite's \<open>TRIM\<close> does not find it blank.\<close>

lemma last_dropWhile_eq: "dropWhile P xs \<noteq> [] \<Longrightarrow> last (dropWhile P xs) = last xs"
  by (induction xs) (auto split: if_splits)

lemma trim_hd_last:
  assumes "rev (dropWhile P (rev (dropWhile P s))) \<noteq> []"
  shows "\<not> P (hd (rev (dropWhile P (rev (dropWhile P s)))))
       \<and> \<not> P (last (rev (dropWhile P (rev (dropWhile P s)))))"
proof -
  define u where "u = dropWhile P s"
  define w where "w = dropWhile P (rev u)"
  have w: "w \<noteq> []" using assms unfolding w_def u_def by simp
  have u: "u \<noteq> []"
  proof
    assume a: "u = []"
    have "w = []" unfolding w_def a by simp
    with w show False by simp
  qed
  have hw: "\<not> P (hd w)" using w unfolding w_def by (rule hd_dropWhile)
  have hu: "\<not> P (hd u)" using u unfolding u_def by (rule hd_dropWhile)
  have "last w = last (rev u)" using w unfolding w_def by (rule last_dropWhile_eq)
  also have "\<dots> = hd u" using u by (simp add: last_rev)
  finally have lw: "last w = hd u" .
  have "hd (rev w) = last w" using w by (simp add: hd_rev)
  moreover have "last (rev w) = hd w" using w by (simp add: last_rev)
  ultimately show ?thesis using hw hu lw unfolding w_def u_def by simp
qed

lemma strip_hd_last:
  assumes "strip s \<noteq> []"
  shows "\<not> isspace (hd (strip s)) \<and> \<not> isspace (last (strip s))"
  using assms trim_hd_last [of isspace s] by (simp add: strip_def)

lemma strip_fixed:
  assumes "v \<noteq> []" and "\<not> isspace (hd v)" and "\<not> isspace (last v)"
  shows "strip v = v"
proof -
  have a: "dropWhile isspace v = v" using assms(1,2) by (cases v) auto
  have "rev v \<noteq> []" "\<not> isspace (hd (rev v))" using assms(1,3) by (simp_all add: hd_rev)
  then have "dropWhile isspace (rev v) = rev v" by (cases "rev v") auto
  with a show ?thesis by (simp add: strip_def)
qed

lemma strip_strip: "strip (strip s) = strip s"
proof (cases "strip s = []")
  case True
  have "strip [] = []" by (simp add: strip_def)
  then show ?thesis unfolding True .
next
  case False
  with strip_hd_last [OF False] show ?thesis by (simp add: strip_fixed)
qed

lemma colore_o_default_idem: "colore_o_default (Some (colore_o_default c)) = colore_o_default c"
proof (cases "strip (or_empty c) = []")
  case True
  have "strip ''DEFAULT'' = ''DEFAULT''" by code_simp
  with True show ?thesis by (simp add: colore_o_default_def or_empty_def)
next
  case False
  then show ?thesis by (simp add: colore_o_default_def or_empty_def strip_strip)
qed

lemma all_dropWhile: "(\<forall>x \<in> set (dropWhile P xs). P x) \<longleftrightarrow> (\<forall>x \<in> set xs. P x)"
  by (induction xs) simp_all

lemma sql_trim_Nil: "sql_trim v = [] \<longleftrightarrow> (\<forall>ch \<in> set v. ch = CHR '' '')"
proof -
  have "sql_trim v = [] \<longleftrightarrow> (\<forall>ch \<in> set (dropWhile (\<lambda>ch. ch = CHR '' '') v). ch = CHR '' '')"
    unfolding sql_trim_def rev_is_Nil_conv dropWhile_eq_Nil_conv set_rev ..
  then show ?thesis
    unfolding all_dropWhile [of "\<lambda>ch. ch = CHR '' ''" v] .
qed

lemma isspace_space: "isspace (CHR '' '')"
  by (simp add: isspace_def)

lemma colore_o_default_non_vuoto: "\<not> colore_vuoto (Some (colore_o_default c))"
proof (cases "strip (or_empty c) = []")
  case True
  have "sql_trim ''DEFAULT'' \<noteq> []" by code_simp
  with True show ?thesis by (simp add: colore_vuoto_def colore_o_default_def)
next
  case False
  let ?v = "strip (or_empty c)"
  from strip_hd_last [OF False] have "\<not> isspace (hd ?v)" by simp
  then have "hd ?v \<noteq> CHR '' ''" using isspace_space by auto
  moreover have "hd ?v \<in> set ?v" using False by simp
  ultimately have "sql_trim ?v \<noteq> []" by (auto simp: sql_trim_Nil)
  with False show ?thesis by (simp add: colore_vuoto_def colore_o_default_def)
qed

subsection \<open>Cells and their quantity\<close>

lemma or_zero_simps [simp]: "or_zero None = 0" "or_zero (Some n) = n"
  by (simp_all add: or_zero_def)

lemma select_quantita_None: "select_quantita ts cod col t = None \<longleftrightarrow> filter (cella cod col t) ts = []"
  by (simp add: select_quantita_def split: list.splits)

lemma cella_quantita_update [simp]: "cella cod col t (r\<lparr>quantita := v\<rparr>) = cella cod col t r"
  by (simp add: cella_def)

lemma filter_cella_map_quantita:
  "filter (cella cod col t) (map (\<lambda>r. if cella cod col t r then r\<lparr>quantita := g r\<rparr> else r) ts)
     = map (\<lambda>r. r\<lparr>quantita := g r\<rparr>) (filter (cella cod col t) ts)"
  by (induction ts) auto

lemma select_quantita_map:
  "select_quantita (map (\<lambda>r. if cella cod col t r then r\<lparr>quantita := g r\<rparr> else r) ts) cod col t
     = (case filter (cella cod col t) ts of [] \<Rightarrow> None | r # _ \<Rightarrow> Some (g r))"
  by (simp add: select_quantita_def filter_cella_map_quantita split: list.splits)

lemma find_map_venduti:
  "find (\<lambda>p. codice p = cod) (map (\<lambda>p. if codice p = cod then p\<lparr>venduti := Some (f p), updated_at := u\<rparr> else p) ps)
     = map_option (\<lambda>p. p\<lparr>venduti := Some (f p), updated_at := u\<rparr>) (find (\<lambda>p. codice p = cod) ps)"
  by (induction ps) auto

lemma scarica_insufficiente:
  assumes "1 \<le> qty" and "quantita_cella db cod (colore_o_default c) t = Some q" and "q < qty"
  shows "scarica_vendita_colore now db cod c t qty = (Inl (ValueError (Stock_insufficiente q qty)), db)"
  using assms by (auto simp: scarica_vendita_colore_def quantita_cella_def Let_def split: option.splits)

lemma select_quantita_Some:
  "select_quantita ts cod col t = Some z \<longleftrightarrow> (\<exists>r rs. filter (cella cod col t) ts = r # rs \<and> z = quantita r)"
  by (auto simp: select_quantita_def split: list.splits)

text \<open>Within the 64-bit range the sum of SQLite is the sum of the integers; beyond it
  the sum is a rounded double, which is not negative when the operands are not.\<close>

lemma somma_sqlite_esatta: "int64 v \<Longrightarrow> int64 (v + k) \<Longrightarrow> somma_sqlite v k = v + k"
  by (simp add: somma_sqlite_def)

lemma double_vicino_non_negative:
  assumes "0 \<le> n"
  shows "0 \<le> double_vicino n"
proof (cases "lunghezza_bit \<bar>n\<bar> \<le> 53")
  case True
  with assms show ?thesis by (simp add: double_vicino_def Let_def)
next
  case False
  define u :: int where "u = 2 ^ (lunghezza_bit \<bar>n\<bar> - 53)"
  define q' where "q' = (if u < 2 * (\<bar>n\<bar> mod u) \<or> (2 * (\<bar>n\<bar> mod u) = u \<and> (\<bar>n\<bar> div u) mod 2 = 1)
                         then \<bar>n\<bar> div u + 1 else \<bar>n\<bar> div u)"
  have u: "0 < u" by (simp add: u_def)
  then have "0 \<le> \<bar>n\<bar> div u" by (simp add: pos_imp_zdiv_nonneg_iff)
  then have "0 \<le> q'" by (simp add: q'_def)
  with u have "0 \<le> q' * u" by simp
  moreover have "0 \<le> sgn n" using assms by (simp add: sgn_if)
  ultimately have "0 \<le> sgn n * (q' * u)" by (rule mult_nonneg_nonneg [rotated])
  moreover have "double_vicino n = sgn n * (q' * u)"
    using False by (simp add: double_vicino_def Let_def u_def q'_def)
  ultimately show ?thesis by simp
qed

lemma somma_sqlite_non_negative: "0 \<le> v \<Longrightarrow> 0 \<le> k \<Longrightarrow> 0 \<le> somma_sqlite v k"
  by (simp add: somma_sqlite_def double_vicino_non_negative)

lemma scarica_ok:
  assumes "1 \<le> qty" and "quantita_cella db cod (colore_o_default c) t = Some q" and "qty \<le> q"
    and "q \<le> 2 ^ 63 - 1"
  shows "\<exists>db'. scarica_vendita_colore now db cod c t qty = (Inr (q - qty), db')
           \<and> quantita_cella db' cod (colore_o_default c) t = Some (q - qty)
           \<and> (\<forall>r \<in> set (taglie_prodotti db'). cella cod (colore_o_default c) t r \<longrightarrow> quantita r = Some (q - qty))
           \<and> venduti_prodotto db' cod = map_option (\<lambda>v. somma_sqlite v qty) (venduti_prodotto db cod)"
proof -
  let ?col = "colore_o_default c"
  from assms(2) obtain z where z: "select_quantita (taglie_prodotti db) cod ?col t = Some z" "q = or_zero z"
    by (auto simp: quantita_cella_def)
  then obtain r rs where r: "filter (cella cod ?col t) (taglie_prodotti db) = r # rs"
    by (auto simp: select_quantita_Some)
  have range: "int64 (q - qty)" "int64 qty"
    using assms(1,3,4) by (simp_all add: int64_def)
  let ?ts = "map (\<lambda>r. if cella cod ?col t r then r\<lparr>quantita := Some (q - qty)\<rparr> else r) (taglie_prodotti db)"
  let ?ps = "map (\<lambda>p. if codice p = cod then p\<lparr>venduti := Some (somma_sqlite (or_zero (venduti p)) qty), updated_at := Some now\<rparr> else p) (prodotti db)"
  let ?db = "db\<lparr>prodotti := ?ps, taglie_prodotti := ?ts\<rparr>"
  have run: "scarica_vendita_colore now db cod c t qty = (Inr (q - qty), ?db)"
    using assms(1,3) z range by (simp add: scarica_vendita_colore_def Let_def)
  have cell: "quantita_cella ?db cod ?col t = Some (q - qty)"
    using r by (simp add: quantita_cella_def select_quantita_map)
  have rows: "\<forall>r \<in> set (taglie_prodotti ?db). cella cod ?col t r \<longrightarrow> quantita r = Some (q - qty)"
    by auto
  have sold: "venduti_prodotto ?db cod = map_option (\<lambda>v. somma_sqlite v qty) (venduti_prodotto db cod)"
    by (simp add: venduti_prodotto_def get_prodotto_def find_map_venduti option.map_comp comp_def)
  from run cell rows sold show ?thesis by blast
qed

lemma carica_ok:
  assumes "1 \<le> qty" and "qty \<le> 2 ^ 63 - 1" and "- (2 ^ 63) \<le> q" and "q + qty \<le> 2 ^ 63 - 1"
    and "quantita_cella db cod (colore_o_default c) t = Some q"
  shows "fst (carica_stock_colore now db cod c t qty) = Inr (q + qty)
         \<and> quantita_cella (snd (carica_stock_colore now db cod c t qty)) cod (colore_o_default c) t = Some (q + qty)"
proof -
  let ?col = "colore_o_default c"
  from assms(5) obtain z where z: "select_quantita (taglie_prodotti db) cod ?col t = Some z" "q = or_zero z"
    by (auto simp: quantita_cella_def)
  then obtain r rs where r: "filter (cella cod ?col t) (taglie_prodotti db) = r # rs" "z = quantita r"
    by (auto simp: select_quantita_Some)
  have range: "int64 qty" "int64 q" "int64 (q + qty)"
    using assms(1-4) by (simp_all add: int64_def)
  have sum: "somma_sqlite (or_zero (quantita r)) qty = q + qty"
    using z(2) r(2) range by (simp add: somma_sqlite_esatta)
  show ?thesis
    using assms(1) z r range(1) sum
    by (simp add: carica_stock_colore_def Let_def quantita_cella_def select_quantita_map)
qed

lemma carica_scarica_tabella:
  assumes "1 \<le> qty" and "0 \<le> q" and "q + qty \<le> 2 ^ 63 - 1"
    and "filter (cella cod (colore_o_default c) t) (taglie_prodotti db) = [r]" and "quantita r = Some q"
  shows "taglie_prodotti (snd (scarica_vendita_colore now' (snd (carica_stock_colore now db cod c t qty)) cod c t qty))
           = taglie_prodotti db"
proof -
  let ?col = "colore_o_default c"
  have range: "int64 qty" "int64 q" "int64 (q + qty)"
    using assms(1-3) by (simp_all add: int64_def)
  have sel: "select_quantita (taglie_prodotti db) cod ?col t = Some (Some q)"
    using assms(4,5) by (simp add: select_quantita_def)
  have each: "\<And>x. x \<in> set (taglie_prodotti db) \<Longrightarrow> cella cod ?col t x \<Longrightarrow> x\<lparr>quantita := Some q\<rparr> = x"
  proof -
    fix x assume "x \<in> set (taglie_prodotti db)" "cella cod ?col t x"
    then have "x \<in> set (filter (cella cod ?col t) (taglie_prodotti db))" by simp
    with assms(4) have "x = r" by simp
    with assms(5) show "x\<lparr>quantita := Some q\<rparr> = x" by simp
  qed
  let ?ts1 = "map (\<lambda>r. if cella cod ?col t r then r\<lparr>quantita := Some (somma_sqlite (or_zero (quantita r)) qty)\<rparr> else r) (taglie_prodotti db)"
  have db1: "taglie_prodotti (snd (carica_stock_colore now db cod c t qty)) = ?ts1"
    using assms(1) sel range(1) by (simp add: carica_stock_colore_def Let_def)
  have sel1: "select_quantita ?ts1 cod ?col t = Some (Some (q + qty))"
    using assms(4,5) range by (simp add: select_quantita_map somma_sqlite_esatta)
  have "taglie_prodotti (snd (scarica_vendita_colore now' (snd (carica_stock_colore now db cod c t qty)) cod c t qty))
          = map (\<lambda>r. if cella cod ?col t r then r\<lparr>quantita := Some q\<rparr> else r) ?ts1"
    using assms(1,2) sel1 db1 range by (simp add: scarica_vendita_colore_def Let_def)
  also have "\<dots> = map (\<lambda>r. if cella cod ?col t r then r\<lparr>quantita := Some q\<rparr> else r) (taglie_prodotti db)"
    by (simp add: comp_def cong: if_cong)
  also have "\<dots> = taglie_prodotti db"
    using each by (intro map_idI) simp
  finally show ?thesis .
qed

subsection \<open>The rows that \<open>ensure_stock_colore\<close> adds\<close>

lemma inserisci_mancanti_append:
  "\<exists>nuove. inserisci_mancanti cod col tgs ts = ts @ nuove
      \<and> (\<forall>r \<in> set nuove. codice_prodotto r = cod \<and> colore r = Some col \<and> taglia r \<in> set tgs \<and> quantita r = Some 0)"
proof (induction tgs arbitrary: ts)
  case Nil
  then show ?case by simp
next
  case (Cons t rest)
  let ?r = "\<lparr>codice_prodotto = cod, colore = Some col, taglia = t, quantita = Some 0\<rparr>"
  show ?case
  proof (cases "filter (cella cod col t) ts = []")
    case True
    from Cons.IH [of "ts @ [?r]"] obtain nuove where
      n: "inserisci_mancanti cod col rest (ts @ [?r]) = (ts @ [?r]) @ nuove"
         "\<forall>r \<in> set nuove. codice_prodotto r = cod \<and> colore r = Some col \<and> taglia r \<in> set rest \<and> quantita r = Some 0"
      by blast
    have "inserisci_mancanti cod col (t # rest) ts = ts @ (?r # nuove)"
      using True n(1) by simp
    moreover have "\<forall>r \<in> set (?r # nuove). codice_prodotto r = cod \<and> colore r = Some col \<and> taglia r \<in> set (t # rest) \<and> quantita r = Some 0"
      using n(2) by simp
    ultimately show ?thesis by blast
  next
    case False
    from Cons.IH [of ts] obtain nuove where
      n: "inserisci_mancanti cod col rest ts = ts @ nuove"
         "\<forall>r \<in> set nuove. codice_prodotto r = cod \<and> colore r = Some col \<and> taglia r \<in> set rest \<and> quantita r = Some 0"
      by blast
    have "inserisci_mancanti cod col (t # rest) ts = ts @ nuove"
      using False n(1) by simp
    moreover have "\<forall>r \<in> set nuove. codice_prodotto r = cod \<and> colore r = Some col \<and> taglia r \<in> set (t # rest) \<and> quantita r = Some 0"
      using n(2) by simp
    ultimately show ?thesis by blast
  qed
qed

lemma inserisci_mancanti_keeps:
  "filter P ts \<noteq> [] \<Longrightarrow> filter P (inserisci_mancanti cod col tgs ts) \<noteq> []"
  using inserisci_mancanti_append [of cod col tgs ts] by auto

lemma inserisci_mancanti_ensures:
  "t \<in> set tgs \<Longrightarrow> filter (cella cod col t) (inserisci_mancanti cod col tgs ts) \<noteq> []"
proof (induction tgs arbitrary: ts)
  case Nil
  then show ?case by simp
next
  case (Cons a rest)
  show ?case
  proof (cases "t = a")
    case True
    let ?ts1 = "if length (filter (cella cod col a) ts) = 0
                then ts @ [\<lparr>codice_prodotto = cod, colore = Some col, taglia = a, quantita = Some 0\<rparr>] else ts"
    have "filter (cella cod col a) ?ts1 \<noteq> []" by (simp add: cella_def)
    then have "filter (cella cod col a) (inserisci_mancanti cod col rest ?ts1) \<noteq> []"
      by (rule inserisci_mancanti_keeps)
    with True show ?thesis by simp
  next
    case False
    with Cons.prems have "t \<in> set rest" by simp
    from Cons.IH [OF this] show ?thesis by simp
  qed
qed

lemma inserisci_mancanti_idem:
  "\<forall>t \<in> set tgs. filter (cella cod col t) ts \<noteq> [] \<Longrightarrow> inserisci_mancanti cod col tgs ts = ts"
  by (induction tgs arbitrary: ts) auto

lemma insert_or_ignore_colore_registra:
  "\<exists>r \<in> set (insert_or_ignore_colore cod col cs). cp_codice_prodotto r = cod \<and> cp_colore r = col"
  by (auto simp: insert_or_ignore_colore_def)

lemma insert_or_ignore_colore_idem:
  "\<exists>r \<in> set cs. cp_codice_prodotto r = cod \<and> cp_colore r = col \<Longrightarrow> insert_or_ignore_colore cod col cs = cs"
  by (simp add: insert_or_ignore_colore_def)

lemma tocca_prodotto_tocca: "tocca_prodotto now' cod (tocca_prodotto now cod ps) = tocca_prodotto now' cod ps"
  by (induction ps) (auto simp: tocca_prodotto_def)

lemma ensure_stock_colore_taglie:
  "taglie_colore (ensure_stock_colore now db cod c tipo) cod (colore_o_default c)
     = taglie_colore db cod (colore_o_default c) \<union> set (taglie_for_tipo tipo)"
proof -
  let ?col = "colore_o_default c" and ?tgs = "taglie_for_tipo tipo"
  obtain nuove where n: "inserisci_mancanti cod ?col ?tgs (taglie_prodotti db) = taglie_prodotti db @ nuove"
    "\<forall>r \<in> set nuove. codice_prodotto r = cod \<and> colore r = Some ?col \<and> taglia r \<in> set ?tgs \<and> quantita r = Some 0"
    using inserisci_mancanti_append by blast
  have ts: "taglie_prodotti (ensure_stock_colore now db cod c tipo) = taglie_prodotti db @ nuove"
    using n(1) by (simp add: ensure_stock_colore_def Let_def)
  have sub: "taglie_colore (ensure_stock_colore now db cod c tipo) cod ?col \<subseteq> taglie_colore db cod ?col \<union> set ?tgs"
    using n(2) by (auto simp: taglie_colore_def ts)
  have sup1: "taglie_colore db cod ?col \<subseteq> taglie_colore (ensure_stock_colore now db cod c tipo) cod ?col"
    by (auto simp: taglie_colore_def ts)
  have sup2: "set ?tgs \<subseteq> taglie_colore (ensure_stock_colore now db cod c tipo) cod ?col"
  proof
    fix t assume "t \<in> set ?tgs"
    then have "filter (cella cod ?col t) (inserisci_mancanti cod ?col ?tgs (taglie_prodotti db)) \<noteq> []"
      by (rule inserisci_mancanti_ensures)
    then obtain r where "r \<in> set (inserisci_mancanti cod ?col ?tgs (taglie_prodotti db))" "cella cod ?col t r"
      by (auto simp: filter_empty_conv)
    then show "t \<in> taglie_colore (ensure_stock_colore now db cod c tipo) cod ?col"
      by (force simp: taglie_colore_def ensure_stock_colore_def Let_def cella_def)
  qed
  from sub sup1 sup2 show ?thesis by blast
qed

lemma ensure_stock_colore_idem:
  "ensure_stock_colore now' (ensure_stock_colore now db cod c tipo) cod c tipo
     = (ensure_stock_colore now db cod c tipo)\<lparr>prodotti := tocca_prodotto now' cod (prodotti db)\<rparr>"
proof -
  let ?col = "colore_o_default c" and ?tgs = "taglie_for_tipo tipo"
  let ?ts = "inserisci_mancanti cod ?col ?tgs (taglie_prodotti db)"
  let ?cs = "insert_or_ignore_colore cod ?col (colori_prodotti db)"
  have "\<forall>t \<in> set ?tgs. filter (cella cod ?col t) ?ts \<noteq> []"
    by (simp add: inserisci_mancanti_ensures)
  then have ts: "inserisci_mancanti cod ?col ?tgs ?ts = ?ts"
    by (rule inserisci_mancanti_idem)
  have cs: "insert_or_ignore_colore cod ?col ?cs = ?cs"
    by (rule insert_or_ignore_colore_idem) (rule insert_or_ignore_colore_registra)
  show ?thesis
    by (simp add: ensure_stock_colore_def Let_def ts cs tocca_prodotto_tocca)
qed

subsection \<open>The rows after \<open>reset_stock_prodotto\<close>\<close>

lemma ensure_stock_colore_append:
  "\<exists>nuove. taglie_prodotti (ensure_stock_colore now db cod c tipo) = taglie_prodotti db @ nuove
      \<and> (\<forall>r \<in> set nuove. codice_prodotto r = cod \<and> colore r = Some (colore_o_default c)
            \<and> taglia r \<in> set (taglie_for_tipo tipo) \<and> quantita r = Some 0)"
  using inserisci_mancanti_append [of cod "colore_o_default c" "taglie_for_tipo tipo" "taglie_prodotti db"]
  by (simp add: ensure_stock_colore_def Let_def)

lemma ensure_stock_colore_cella:
  "t \<in> set (taglie_for_tipo tipo) \<Longrightarrow>
     filter (cella cod (colore_o_default c) t) (taglie_prodotti (ensure_stock_colore now db cod c tipo)) \<noteq> []"
  using inserisci_mancanti_ensures [of t "taglie_for_tipo tipo" cod "colore_o_default c" "taglie_prodotti db"]
  by (simp add: ensure_stock_colore_def Let_def)

lemma ensure_stock_colore_colori:
  "colori_prodotti (ensure_stock_colore now db cod c tipo)
     = insert_or_ignore_colore cod (colore_o_default c) (colori_prodotti db)"
  by (simp add: ensure_stock_colore_def Let_def)

lemma foldl_ensure_append:
  assumes "\<forall>c \<in> set cs. colore_o_default (Some c) = c"
  shows "\<exists>nuove. taglie_prodotti (foldl (\<lambda>d c. ensure_stock_colore now d cod (Some c) tipo) db cs) = taglie_prodotti db @ nuove
      \<and> (\<forall>r \<in> set nuove. codice_prodotto r = cod \<and> (\<exists>c \<in> set cs. colore r = Some c)
            \<and> taglia r \<in> set (taglie_for_tipo tipo) \<and> quantita r = Some 0)"
  using assms
proof (induction cs rule: rev_induct)
  case Nil
  then show ?case by simp
next
  case (snoc c cs)
  let ?d = "foldl (\<lambda>d c. ensure_stock_colore now d cod (Some c) tipo) db cs"
  from snoc obtain n1 where n1: "taglie_prodotti ?d = taglie_prodotti db @ n1"
    "\<forall>r \<in> set n1. codice_prodotto r = cod \<and> (\<exists>c \<in> set cs. colore r = Some c)
            \<and> taglia r \<in> set (taglie_for_tipo tipo) \<and> quantita r = Some 0"
    by auto
  obtain n2 where n2: "taglie_prodotti (ensure_stock_colore now ?d cod (Some c) tipo) = taglie_prodotti ?d @ n2"
    "\<forall>r \<in> set n2. codice_prodotto r = cod \<and> colore r = Some (colore_o_default (Some c))
            \<and> taglia r \<in> set (taglie_for_tipo tipo) \<and> quantita r = Some 0"
    using ensure_stock_colore_append by blast
  have c: "colore_o_default (Some c) = c" using snoc.prems by simp
  have "taglie_prodotti (foldl (\<lambda>d c. ensure_stock_colore now d cod (Some c) tipo) db (cs @ [c])) = taglie_prodotti db @ (n1 @ n2)"
    using n1(1) n2(1) by simp
  moreover have "\<forall>r \<in> set (n1 @ n2). codice_prodotto r = cod \<and> (\<exists>c' \<in> set (cs @ [c]). colore r = Some c')
            \<and> taglia r \<in> set (taglie_for_tipo tipo) \<and> quantita r = Some 0"
    using n1(2) n2(2) c by auto
  ultimately show ?case by blast
qed

lemma foldl_ensure_cella:
  assumes "\<forall>c \<in> set cs. colore_o_default (Some c) = c" and "c \<in> set cs" and "t \<in> set (taglie_for_tipo tipo)"
  shows "filter (cella cod c t) (taglie_prodotti (foldl (\<lambda>d c. ensure_stock_colore now d cod (Some c) tipo) db cs)) \<noteq> []"
  using assms
proof (induction cs rule: rev_induct)
  case Nil
  then show ?case by simp
next
  case (snoc a cs)
  let ?d = "foldl (\<lambda>d c. ensure_stock_colore now d cod (Some c) tipo) db cs"
  obtain n2 where n2: "taglie_prodotti (ensure_stock_colore now ?d cod (Some a) tipo) = taglie_prodotti ?d @ n2"
    using ensure_stock_colore_append by blast
  show ?case
  proof (cases "c = a")
    case True
    have "colore_o_default (Some a) = a" using snoc.prems by simp
    with ensure_stock_colore_cella [OF snoc.prems(3), of cod "Some a" now ?d] True
    show ?thesis by simp
  next
    case False
    with snoc have "filter (cella cod c t) (taglie_prodotti ?d) \<noteq> []" by simp
    then show ?thesis using n2 by simp
  qed
qed

lemma foldl_ensure_colori:
  assumes "\<forall>c \<in> set cs. colore_o_default (Some c) = c"
    and "\<forall>c \<in> set cs. \<exists>r \<in> set (colori_prodotti db). cp_codice_prodotto r = cod \<and> cp_colore r = c"
  shows "colori_prodotti (foldl (\<lambda>d c. ensure_stock_colore now d cod (Some c) tipo) db cs) = colori_prodotti db"
  using assms
proof (induction cs rule: rev_induct)
  case Nil
  then show ?case by simp
next
  case (snoc a cs)
  then show ?case
    by (simp add: ensure_stock_colore_colori insert_or_ignore_colore_idem)
qed

lemma set_select_colori: "set (select_colori cs cod) = set (map cp_colore (filter (\<lambda>r. cp_codice_prodotto r = cod) cs))"
  by (simp add: select_colori_def)

subsection \<open>The migration loop\<close>

lemma migra_prodotti_passo:
  "migra_prodotti nessun_guasto ((cod, leg) # righe) cs ts =
     migra_prodotti nessun_guasto righe
       (insert_or_ignore_colore cod (colore_o_default (Some leg)) cs)
       (map (\<lambda>r. if codice_prodotto r = cod \<and> colore_vuoto (colore r)
                  then r\<lparr>colore := Some (colore_o_default (Some leg))\<rparr> else r) ts)"
  by (simp add: nessun_guasto_def Let_def)

text \<open>A pass without failure is never rolled back.\<close>

lemma migra_prodotti_nessun_guasto:
  "\<exists>cs' ts'. migra_prodotti nessun_guasto righe cs ts = Some (cs', ts')"
proof (induction righe arbitrary: cs ts)
  case Nil
  then show ?case by simp
next
  case (Cons x righe)
  obtain cod leg where x: "x = (cod, leg)" by (cases x)
  show ?case unfolding x migra_prodotti_passo by (rule Cons.IH)
qed

lemma insert_or_ignore_colore_append: "\<exists>n. insert_or_ignore_colore cod col cs = cs @ n"
  by (simp add: insert_or_ignore_colore_def)

lemma migra_prodotti_taglie:
  "snd (the (migra_prodotti nessun_guasto righe cs ts)) =
     map (\<lambda>r. if colore_vuoto (colore r)
               then (case find (\<lambda>x. fst x = codice_prodotto r) righe of
                       None \<Rightarrow> r
                     | Some x \<Rightarrow> r\<lparr>colore := Some (colore_o_default (Some (snd x)))\<rparr>)
               else r) ts"
proof (induction righe arbitrary: cs ts)
  case Nil
  then show ?case by (simp cong: if_cong)
next
  case (Cons x righe)
  obtain cod leg where x: "x = (cod, leg)" by (cases x)
  show ?case
    unfolding x migra_prodotti_passo Cons.IH
    by (auto simp: colore_o_default_non_vuoto)
qed

lemma migra_prodotti_colori_append:
  "\<exists>nuovi. fst (the (migra_prodotti nessun_guasto righe cs ts)) = cs @ nuovi"
proof (induction righe arbitrary: cs ts)
  case Nil
  then show ?case by simp
next
  case (Cons x righe)
  obtain cod leg where x: "x = (cod, leg)" by (cases x)
  let ?cs1 = "insert_or_ignore_colore cod (colore_o_default (Some leg)) cs"
  let ?ts1 = "map (\<lambda>r. if codice_prodotto r = cod \<and> colore_vuoto (colore r)
                       then r\<lparr>colore := Some (colore_o_default (Some leg))\<rparr> else r) ts"
  obtain n1 where n1: "?cs1 = cs @ n1" using insert_or_ignore_colore_append by blast
  from Cons.IH [of ?cs1 ?ts1] obtain n2
    where "fst (the (migra_prodotti nessun_guasto righe ?cs1 ?ts1)) = ?cs1 @ n2"
    by blast
  then have "fst (the (migra_prodotti nessun_guasto (x # righe) cs ts)) = cs @ (n1 @ n2)"
    unfolding x migra_prodotti_passo using n1 by simp
  then show ?case by blast
qed

lemma migra_prodotti_registra:
  assumes "(cod, leg) \<in> set righe"
  shows "\<exists>r \<in> set (fst (the (migra_prodotti nessun_guasto righe cs ts))).
           cp_codice_prodotto r = cod \<and> cp_colore r = colore_o_default (Some leg)"
  using assms
proof (induction righe arbitrary: cs ts)
  case Nil
  then show ?case by simp
next
  case (Cons x righe)
  obtain cod' leg' where x: "x = (cod', leg')" by (cases x)
  let ?cs1 = "insert_or_ignore_colore cod' (colore_o_default (Some leg')) cs"
  let ?ts1 = "map (\<lambda>r. if codice_prodotto r = cod' \<and> colore_vuoto (colore r)
                       then r\<lparr>colore := Some (colore_o_default (Some leg'))\<rparr> else r) ts"
  have step: "migra_prodotti nessun_guasto (x # righe) cs ts = migra_prodotti nessun_guasto righe ?cs1 ?ts1"
    unfolding x by (rule migra_prodotti_passo)
  show ?case
  proof (cases "(cod, leg) = x")
    case True
    obtain n where "fst (the (migra_prodotti nessun_guasto righe ?cs1 ?ts1)) = ?cs1 @ n"
      using migra_prodotti_colori_append by blast
    moreover have "\<exists>r \<in> set ?cs1. cp_codice_prodotto r = cod \<and> cp_colore r = colore_o_default (Some leg)"
      using True x insert_or_ignore_colore_registra [of cod' "colore_o_default (Some leg')" cs] by simp
    ultimately show ?thesis unfolding step by auto
  next
    case False
    with Cons.prems have "(cod, leg) \<in> set righe" by auto
    from Cons.IH [OF this] show ?thesis unfolding step .
  qed
qed

lemma insert_or_ignore_colore_distinct:
  "distinct cs \<Longrightarrow> distinct (insert_or_ignore_colore cod col cs)"
  by (auto simp: insert_or_ignore_colore_def)

lemma migra_prodotti_distinct:
  "distinct cs \<Longrightarrow> distinct (fst (the (migra_prodotti nessun_guasto righe cs ts)))"
proof (induction righe arbitrary: cs ts)
  case Nil
  then show ?case by simp
next
  case (Cons x righe)
  obtain cod leg where x: "x = (cod, leg)" by (cases x)
  show ?case unfolding x migra_prodotti_passo
    using Cons.prems by (intro Cons.IH insert_or_ignore_colore_distinct)
qed

lemma migra_prodotti_fermo:
  assumes "\<forall>x \<in> set righe. (\<exists>r \<in> set cs. cp_codice_prodotto r = fst x \<and> cp_colore r = colore_o_default (Some (snd x)))"
    and "\<forall>x \<in> set righe. \<forall>r \<in> set ts. codice_prodotto r = fst x \<longrightarrow> \<not> colore_vuoto (colore r)"
  shows "migra_prodotti nessun_guasto righe cs ts = Some (cs, ts)"
  using assms
proof (induction righe)
  case Nil
  then show ?case by simp
next
  case (Cons x righe)
  obtain cod leg where x: "x = (cod, leg)" by (cases x)
  have c: "insert_or_ignore_colore cod (colore_o_default (Some leg)) cs = cs"
    using Cons.prems(1) x by (simp add: insert_or_ignore_colore_idem)
  have t: "map (\<lambda>r. if codice_prodotto r = cod \<and> colore_vuoto (colore r)
                       then r\<lparr>colore := Some (colore_o_default (Some leg))\<rparr> else r) ts = ts"
    using Cons.prems(2) x by (intro map_idI) auto
  have "migra_prodotti nessun_guasto (x # righe) cs ts = migra_prodotti nessun_guasto righe cs ts"
    unfolding x migra_prodotti_passo c t ..
  also have "\<dots> = Some (cs, ts)" using Cons by simp
  finally show ?case .
qed

lemma find_righe:
  "find (\<lambda>x. fst x = k) (map (\<lambda>p. (codice p, or_empty (colore_legacy p))) ps)
     = map_option (\<lambda>p. (codice p, or_empty (colore_legacy p))) (find (\<lambda>p. codice p = k) ps)"
  by (induction ps) auto

lemma migrazione_dati_campi:
  "prodotti (migrazione_dati nessun_guasto db) = prodotti db"
  "colori_prodotti (migrazione_dati nessun_guasto db)
     = fst (the (migra_prodotti nessun_guasto (map (\<lambda>p. (codice p, or_empty (colore_legacy p))) (prodotti db))
              (colori_prodotti db) (taglie_prodotti db)))"
  "taglie_prodotti (migrazione_dati nessun_guasto db)
     = snd (the (migra_prodotti nessun_guasto (map (\<lambda>p. (codice p, or_empty (colore_legacy p))) (prodotti db))
              (colori_prodotti db) (taglie_prodotti db)))"
proof -
  let ?righe = "map (\<lambda>p. (codice p, or_empty (colore_legacy p))) (prodotti db)"
  obtain cs ts where m: "migra_prodotti nessun_guasto ?righe (colori_prodotti db) (taglie_prodotti db) = Some (cs, ts)"
    using migra_prodotti_nessun_guasto by blast
  have d: "migrazione_dati nessun_guasto db = db\<lparr>colori_prodotti := cs, taglie_prodotti := ts\<rparr>"
    unfolding migrazione_dati_def Let_def m by simp
  show "prodotti (migrazione_dati nessun_guasto db) = prodotti db" unfolding d by simp
  show "colori_prodotti (migrazione_dati nessun_guasto db)
     = fst (the (migra_prodotti nessun_guasto ?righe (colori_prodotti db) (taglie_prodotti db)))"
    unfolding d m by simp
  show "taglie_prodotti (migrazione_dati nessun_guasto db)
     = snd (the (migra_prodotti nessun_guasto ?righe (colori_prodotti db) (taglie_prodotti db)))"
    unfolding d m by simp
qed



subsection \<open>Operations that keep the quantities non-negative\<close>

lemma ensure_stock_colore_non_negative:
  "quantita_non_negative db \<Longrightarrow> quantita_non_negative (ensure_stock_colore now db cod c tipo)"
  using ensure_stock_colore_append [of now db cod c tipo]
  by (auto simp: quantita_non_negative_def)

lemma reset_stock_prodotto_non_negative:
  assumes "quantita_non_negative db"
  shows "quantita_non_negative (reset_stock_prodotto now db cod tipo)"
proof -
  have step: "quantita_non_negative (foldl (\<lambda>d c. ensure_stock_colore now d cod (Some c) tipo) d cs)"
    if "quantita_non_negative d" for d cs
    using that by (induction cs rule: rev_induct) (simp_all add: ensure_stock_colore_non_negative)
  have "quantita_non_negative (db\<lparr>taglie_prodotti := filter (\<lambda>r. codice_prodotto r \<noteq> cod) (taglie_prodotti db)\<rparr>)"
    using assms by (simp add: quantita_non_negative_def)
  then show ?thesis
    unfolding reset_stock_prodotto_def Let_def by (rule step)
qed

lemma non_negative_update:
  assumes "\<forall>r \<in> set ts. 0 \<le> or_zero (quantita r)"
    and "\<And>r. r \<in> set ts \<Longrightarrow> P r \<Longrightarrow> 0 \<le> v r"
  shows "\<forall>r \<in> set (map (\<lambda>r. if P r then r\<lparr>quantita := Some (v r)\<rparr> else r) ts). 0 \<le> or_zero (quantita r)"
proof
  fix r' assume "r' \<in> set (map (\<lambda>r. if P r then r\<lparr>quantita := Some (v r)\<rparr> else r) ts)"
  then obtain r where r: "r \<in> set ts" "r' = (if P r then r\<lparr>quantita := Some (v r)\<rparr> else r)"
    by auto
  show "0 \<le> or_zero (quantita r')"
  proof (cases "P r")
    case True
    with r assms(2) show ?thesis by simp
  next
    case False
    with r assms(1) show ?thesis by simp
  qed
qed

lemma carica_stock_colore_taglie:
  "taglie_prodotti (snd (carica_stock_colore now db cod c t qty)) = taglie_prodotti db
   \<or> (1 \<le> qty \<and> taglie_prodotti (snd (carica_stock_colore now db cod c t qty)) =
         map (\<lambda>r. if cella cod (colore_o_default c) t r
                    then r\<lparr>quantita := Some (somma_sqlite (or_zero (quantita r)) qty)\<rparr> else r) (taglie_prodotti db))"
  by (simp add: carica_stock_colore_def Let_def split: option.splits)

lemma carica_stock_colore_non_negative:
  assumes "quantita_non_negative db"
  shows "quantita_non_negative (snd (carica_stock_colore now db cod c t qty))"
  using carica_stock_colore_taglie [of now db cod c t qty]
proof
  assume "taglie_prodotti (snd (carica_stock_colore now db cod c t qty)) = taglie_prodotti db"
  with assms show ?thesis by (simp add: quantita_non_negative_def)
next
  assume a: "1 \<le> qty \<and> taglie_prodotti (snd (carica_stock_colore now db cod c t qty)) =
         map (\<lambda>r. if cella cod (colore_o_default c) t r
                    then r\<lparr>quantita := Some (somma_sqlite (or_zero (quantita r)) qty)\<rparr> else r) (taglie_prodotti db)"
  then have "0 \<le> qty" by simp
  with assms have "\<forall>r \<in> set (map (\<lambda>r. if cella cod (colore_o_default c) t r
                     then r\<lparr>quantita := Some (somma_sqlite (or_zero (quantita r)) qty)\<rparr> else r) (taglie_prodotti db)).
            0 \<le> or_zero (quantita r)"
    unfolding quantita_non_negative_def
    by (intro non_negative_update) (auto intro: somma_sqlite_non_negative)
  with a show ?thesis unfolding quantita_non_negative_def by simp
qed

lemma scarica_vendita_colore_taglie:
  "taglie_prodotti (snd (scarica_vendita_colore now db cod c t qty)) = taglie_prodotti db
   \<or> (\<exists>nuova_q. 0 \<le> nuova_q \<and> taglie_prodotti (snd (scarica_vendita_colore now db cod c t qty)) =
         map (\<lambda>r. if cella cod (colore_o_default c) t r
                    then r\<lparr>quantita := Some nuova_q\<rparr> else r) (taglie_prodotti db))"
proof (cases "select_quantita (taglie_prodotti db) cod (colore_o_default c) t")
  case None
  then show ?thesis by (simp add: scarica_vendita_colore_def)
next
  case (Some row)
  show ?thesis
  proof (cases "qty < 1 \<or> or_zero row < qty \<or> \<not> (int64 (or_zero row - qty) \<and> int64 qty)")
    case True
    with Some show ?thesis by (auto simp: scarica_vendita_colore_def Let_def)
  next
    case False
    then have "0 \<le> or_zero row - qty" by simp
    moreover have "taglie_prodotti (snd (scarica_vendita_colore now db cod c t qty)) =
         map (\<lambda>r. if cella cod (colore_o_default c) t r
                    then r\<lparr>quantita := Some (or_zero row - qty)\<rparr> else r) (taglie_prodotti db)"
      using False Some by (simp add: scarica_vendita_colore_def Let_def)
    ultimately show ?thesis by blast
  qed
qed

lemma scarica_vendita_colore_non_negative:
  assumes "quantita_non_negative db"
  shows "quantita_non_negative (snd (scarica_vendita_colore now db cod c t qty))"
  using scarica_vendita_colore_taglie [of now db cod c t qty]
proof
  assume "taglie_prodotti (snd (scarica_vendita_colore now db cod c t qty)) = taglie_prodotti db"
  with assms show ?thesis by (simp add: quantita_non_negative_def)
next
  assume "\<exists>nuova_q. 0 \<le> nuova_q \<and> taglie_prodotti (snd (scarica_vendita_colore now db cod c t qty)) =
         map (\<lambda>r. if cella cod (colore_o_default c) t r
                    then r\<lparr>quantita := Some nuova_q\<rparr> else r) (taglie_prodotti db)"
  then obtain nuova_q where a: "0 \<le> nuova_q"
    "taglie_prodotti (snd (scarica_vendita_colore now db cod c t qty)) =
         map (\<lambda>r. if cella cod (colore_o_default c) t r
                    then r\<lparr>quantita := Some nuova_q\<rparr> else r) (taglie_prodotti db)"
    by blast
  with assms have "\<forall>r \<in> set (map (\<lambda>r. if cella cod (colore_o_default c) t r
                     then r\<lparr>quantita := Some nuova_q\<rparr> else r) (taglie_prodotti db)).
            0 \<le> or_zero (quantita r)"
    unfolding quantita_non_negative_def by (intro non_negative_update) auto
  with a show ?thesis unfolding quantita_non_negative_def by simp
qed

lemma set_stock_righe_passo:
  "set_stock_righe cod col ((taglia0, qta) # rest) ts =
     (if strip (or_empty taglia0) = [] then set_stock_righe cod col rest ts
      else if \<not> int64 (let q0 = (case qta of None \<Rightarrow> 0 | Some n \<Rightarrow> n) in if q0 < 0 then 0 else q0)
           then None
      else if length (filter (cella cod col (strip (or_empty taglia0))) ts) = 0
           then set_stock_righe cod col rest
                  (ts @ [\<lparr>codice_prodotto = cod, colore = Some col, taglia = strip (or_empty taglia0),
                          quantita = Some (let q0 = (case qta of None \<Rightarrow> 0 | Some n \<Rightarrow> n)
                                           in if q0 < 0 then 0 else q0)\<rparr>])
           else set_stock_righe cod col rest
                  (map (\<lambda>r. if cella cod col (strip (or_empty taglia0)) r
                             then r\<lparr>quantita := Some (let q0 = (case qta of None \<Rightarrow> 0 | Some n \<Rightarrow> n)
                                                       in if q0 < 0 then 0 else q0)\<rparr>
                             else r) ts))"
  unfolding set_stock_righe.simps Let_def by simp

lemma set_stock_righe_non_negative:
  "\<forall>r \<in> set ts. 0 \<le> or_zero (quantita r) \<Longrightarrow> set_stock_righe cod col mappa ts = Some ts' \<Longrightarrow>
   \<forall>r \<in> set ts'. 0 \<le> or_zero (quantita r)"
proof (induction mappa arbitrary: ts)
  case Nil
  then show ?case by simp
next
  case (Cons x rest)
  obtain taglia0 qta where x: "x = (taglia0, qta)" by (cases x)
  define t where "t = strip (or_empty taglia0)"
  define q where "q = (let q0 = (case qta of None \<Rightarrow> 0 | Some n \<Rightarrow> n) in if q0 < 0 then (0::int) else q0)"
  have q: "0 \<le> q" by (simp add: q_def Let_def)
  have a: "\<forall>r \<in> set (ts @ [\<lparr>codice_prodotto = cod, colore = Some col, taglia = t, quantita = Some q\<rparr>]).
                  0 \<le> or_zero (quantita r)"
    using Cons.prems(1) q by simp
  have b: "\<forall>r \<in> set (map (\<lambda>r. if cella cod col t r then r\<lparr>quantita := Some q\<rparr> else r) ts).
                  0 \<le> or_zero (quantita r)"
    using Cons.prems(1) q by (intro non_negative_update) auto
  have step: "set_stock_righe cod col (x # rest) ts =
          (if t = [] then set_stock_righe cod col rest ts
           else if \<not> int64 q then None
           else if length (filter (cella cod col t) ts) = 0
                then set_stock_righe cod col rest
                       (ts @ [\<lparr>codice_prodotto = cod, colore = Some col, taglia = t, quantita = Some q\<rparr>])
                else set_stock_righe cod col rest
                       (map (\<lambda>r. if cella cod col t r then r\<lparr>quantita := Some q\<rparr> else r) ts))"
    unfolding x t_def q_def by (rule set_stock_righe_passo)
  consider (skip) "set_stock_righe cod col rest ts = Some ts'"
    | (ins) "set_stock_righe cod col rest
               (ts @ [\<lparr>codice_prodotto = cod, colore = Some col, taglia = t, quantita = Some q\<rparr>]) = Some ts'"
    | (upd) "set_stock_righe cod col rest
               (map (\<lambda>r. if cella cod col t r then r\<lparr>quantita := Some q\<rparr> else r) ts) = Some ts'"
    using Cons.prems(2) unfolding step by (auto split: if_splits)
  then show ?case
  proof cases
    case skip
    from Cons.IH [OF Cons.prems(1) this] show ?thesis .
  next
    case ins
    from Cons.IH [OF a this] show ?thesis .
  next
    case upd
    from Cons.IH [OF b this] show ?thesis .
  qed
qed

lemma set_stock_colore_non_negative:
  assumes "quantita_non_negative db"
  shows "quantita_non_negative (set_stock_colore db cod c mappa)"
proof (cases "set_stock_righe cod (colore_o_default c) mappa (taglie_prodotti db)")
  case None
  with assms show ?thesis by (simp add: set_stock_colore_def)
next
  case (Some ts')
  from assms have "\<forall>r \<in> set (taglie_prodotti db). 0 \<le> or_zero (quantita r)"
    by (simp add: quantita_non_negative_def)
  from set_stock_righe_non_negative [OF this Some] Some show ?thesis
    by (simp add: set_stock_colore_def quantita_non_negative_def)
qed

lemma migra_prodotti_non_negative:
  "\<forall>r \<in> set ts. 0 \<le> or_zero (quantita r) \<Longrightarrow> migra_prodotti g righe cs ts = Some (cs', ts') \<Longrightarrow>
   \<forall>r \<in> set ts'. 0 \<le> or_zero (quantita r)"
proof (induction righe arbitrary: cs ts)
  case Nil
  then show ?case by simp
next
  case (Cons x righe)
  obtain cod leg where x: "x = (cod, leg)" by (cases x)
  have a: "\<forall>r \<in> set (map (\<lambda>r. if codice_prodotto r = cod \<and> colore_vuoto (colore r)
                       then r\<lparr>colore := Some (colore_o_default (Some leg))\<rparr> else r) ts).
        0 \<le> or_zero (quantita r)"
    using Cons.prems(1) by auto
  show ?case
  proof (cases "g cod")
    case Nessun_guasto
    with Cons.prems(2) have "migra_prodotti g righe
        (insert_or_ignore_colore cod (colore_o_default (Some leg)) cs)
        (map (\<lambda>r. if codice_prodotto r = cod \<and> colore_vuoto (colore r)
                   then r\<lparr>colore := Some (colore_o_default (Some leg))\<rparr> else r) ts) = Some (cs', ts')"
      unfolding x by (simp add: Let_def)
    from Cons.IH [OF a this] show ?thesis .
  next
    case Guasto_insert
    with Cons.prems show ?thesis unfolding x by (simp add: Let_def)
  next
    case Guasto_update
    with Cons.prems show ?thesis unfolding x by (simp add: Let_def)
  next
    case Guasto_annulla
    with Cons.prems show ?thesis unfolding x by (simp add: Let_def)
  qed
qed

lemma migrazione_dati_non_negative:
  assumes "quantita_non_negative db"
  shows "quantita_non_negative (migrazione_dati g db)"
proof (cases "migra_prodotti g (map (\<lambda>p. (codice p, or_empty (colore_legacy p))) (prodotti db))
                (colori_prodotti db) (taglie_prodotti db)")
  case None
  with assms show ?thesis by (simp add: migrazione_dati_def)
next
  case (Some a)
  obtain cs' ts' where a: "a = (cs', ts')" by (cases a)
  from assms have "\<forall>r \<in> set (taglie_prodotti db). 0 \<le> or_zero (quantita r)"
    by (simp add: quantita_non_negative_def)
  from migra_prodotti_non_negative [OF this Some [unfolded a]] Some a show ?thesis
    by (simp add: migrazione_dati_def quantita_non_negative_def)
qed

lemma rinomina_colore_non_negative:
  "quantita_non_negative db \<Longrightarrow> quantita_non_negative (rinomina_colore now db cod vecchio nuovo)"
  by (auto simp: quantita_non_negative_def rinomina_colore_def Let_def)

subsection \<open>Operations that keep the registered colours in normal form\<close>

lemma colore_o_default_strip: "strip s \<noteq> [] \<Longrightarrow> colore_o_default (Some (strip s)) = strip s"
  by (simp add: colore_o_default_def or_empty_def strip_strip)

lemma insert_or_ignore_colore_normali:
  assumes "\<forall>r \<in> set cs. colore_o_default (Some (cp_colore r)) = cp_colore r"
    and "colore_o_default (Some col) = col"
  shows "\<forall>r \<in> set (insert_or_ignore_colore cod col cs). colore_o_default (Some (cp_colore r)) = cp_colore r"
  using assms by (simp add: insert_or_ignore_colore_def)

lemma ensure_stock_colore_normali:
  "colori_normali db \<Longrightarrow> colori_normali (ensure_stock_colore now db cod c tipo)"
  unfolding colori_normali_def ensure_stock_colore_colori
  by (rule insert_or_ignore_colore_normali) (simp_all add: colore_o_default_idem)

lemma reset_stock_prodotto_normali:
  assumes "colori_normali db"
  shows "colori_normali (reset_stock_prodotto now db cod tipo)"
proof -
  have step: "colori_normali (foldl (\<lambda>d c. ensure_stock_colore now d cod (Some c) tipo) d cs)"
    if "colori_normali d" for d cs
    using that by (induction cs rule: rev_induct) (simp_all add: ensure_stock_colore_normali)
  have "colori_normali (db\<lparr>taglie_prodotti := filter (\<lambda>r. codice_prodotto r \<noteq> cod) (taglie_prodotti db)\<rparr>)"
    using assms by (simp add: colori_normali_def)
  then show ?thesis
    unfolding reset_stock_prodotto_def Let_def by (rule step)
qed

lemma aggiungi_colore_normali:
  assumes "colori_normali db"
  shows "colori_normali (aggiungi_colore db cod c)"
proof (cases "strip (or_empty c) = []")
  case True
  with assms show ?thesis by (simp add: aggiungi_colore_def)
next
  case False
  from assms have "\<forall>r \<in> set (insert_or_ignore_colore cod (strip (or_empty c)) (colori_prodotti db)).
               colore_o_default (Some (cp_colore r)) = cp_colore r"
    unfolding colori_normali_def using False
    by (intro insert_or_ignore_colore_normali colore_o_default_strip)
  with False show ?thesis by (simp add: aggiungi_colore_def colori_normali_def)
qed

lemma rinomina_colore_normali:
  assumes "colori_normali db"
  shows "colori_normali (rinomina_colore now db cod vecchio nuovo)"
proof (cases "strip (or_empty vecchio) = [] \<or> strip (or_empty nuovo) = []")
  case True
  with assms show ?thesis by (auto simp: rinomina_colore_def Let_def)
next
  case False
  then have "colore_o_default (Some (strip (or_empty nuovo))) = strip (or_empty nuovo)"
    by (simp add: colore_o_default_strip)
  with assms False show ?thesis
    by (auto simp: rinomina_colore_def Let_def colori_normali_def)
qed

lemma migra_prodotti_normali:
  "\<forall>r \<in> set cs. colore_o_default (Some (cp_colore r)) = cp_colore r \<Longrightarrow>
   migra_prodotti g righe cs ts = Some (cs', ts') \<Longrightarrow>
   \<forall>r \<in> set cs'. colore_o_default (Some (cp_colore r)) = cp_colore r"
proof (induction righe arbitrary: cs ts)
  case Nil
  then show ?case by simp
next
  case (Cons x righe)
  obtain cod leg where x: "x = (cod, leg)" by (cases x)
  have a: "\<forall>r \<in> set (insert_or_ignore_colore cod (colore_o_default (Some leg)) cs).
             colore_o_default (Some (cp_colore r)) = cp_colore r"
    using Cons.prems(1) by (rule insert_or_ignore_colore_normali) (simp add: colore_o_default_idem)
  show ?case
  proof (cases "g cod")
    case Nessun_guasto
    with Cons.prems(2) have "migra_prodotti g righe
        (insert_or_ignore_colore cod (colore_o_default (Some leg)) cs)
        (map (\<lambda>r. if codice_prodotto r = cod \<and> colore_vuoto (colore r)
                   then r\<lparr>colore := Some (colore_o_default (Some leg))\<rparr> else r) ts) = Some (cs', ts')"
      unfolding x by (simp add: Let_def)
    from Cons.IH [OF a this] show ?thesis .
  next
    case Guasto_insert
    with Cons.prems show ?thesis unfolding x by (simp add: Let_def)
  next
    case Guasto_update
    with Cons.prems(2) have "cs' = insert_or_ignore_colore cod (colore_o_default (Some leg)) cs"
      unfolding x by (simp add: Let_def)
    with a show ?thesis by simp
  next
    case Guasto_annulla
    with Cons.prems show ?thesis unfolding x by (simp add: Let_def)
  qed
qed

lemma migrazione_dati_normali:
  assumes "colori_normali db"
  shows "colori_normali (migrazione_dati g db)"
proof (cases "migra_prodotti g (map (\<lambda>p. (codice p, or_empty (colore_legacy p))) (prodotti db))
                (colori_prodotti db) (taglie_prodotti db)")
  case None
  with assms show ?thesis by (simp add: migrazione_dati_def)
next
  case (Some a)
  obtain cs' ts' where a: "a = (cs', ts')" by (cases a)
  from assms have "\<forall>r \<in> set (colori_prodotti db). colore_o_default (Some (cp_colore r)) = cp_colore r"
    by (simp add: colori_normali_def)
  from migra_prodotti_normali [OF this Some [unfolded a]] Some a show ?thesis
    by (simp add: migrazione_dati_def colori_normali_def)
qed

lemma colori_normali_registrati:
  "colori_normali db \<Longrightarrow> \<forall>col \<in> colori_registrati db cod. colore_o_default (Some col) = col"
  by (auto simp: colori_normali_def colori_registrati_def)

subsection \<open>What \<open>rinomina_colore\<close> does\<close>

lemma taglie_colore_iff:
  "t \<in> taglie_colore db cod col \<longleftrightarrow>
     (\<exists>r \<in> set (taglie_prodotti db). codice_prodotto r = cod \<and> colore r = Some col \<and> taglia r = t)"
  by (auto simp: taglie_colore_def)

lemma colori_registrati_iff:
  "c \<in> colori_registrati db cod \<longleftrightarrow>
     (\<exists>r \<in> set (colori_prodotti db). cp_codice_prodotto r = cod \<and> cp_colore r = c)"
  by (auto simp: colori_registrati_def)

lemma rinomina_colore_campi:
  assumes "strip (or_empty vecchio0) = vecchio" and "strip (or_empty nuovo0) = nuovo"
    and "vecchio \<noteq> []" and "nuovo \<noteq> []"
  shows "prodotti (rinomina_colore now db cod vecchio0 nuovo0) = tocca_prodotto now cod (prodotti db)"
    and "taglie_prodotti (rinomina_colore now db cod vecchio0 nuovo0) =
           map (\<lambda>r. if codice_prodotto r = cod \<and> colore r = Some vecchio
                      then r\<lparr>colore := Some nuovo\<rparr> else r) (taglie_prodotti db)"
    and "nuovo \<in> colori_registrati db cod \<Longrightarrow>
         colori_prodotti (rinomina_colore now db cod vecchio0 nuovo0) =
           filter (\<lambda>r. \<not> (cp_codice_prodotto r = cod \<and> cp_colore r = vecchio)) (colori_prodotti db)"
    and "nuovo \<notin> colori_registrati db cod \<Longrightarrow>
         colori_prodotti (rinomina_colore now db cod vecchio0 nuovo0) =
           map (\<lambda>r. if cp_codice_prodotto r = cod \<and> cp_colore r = vecchio
                      then r\<lparr>cp_colore := nuovo\<rparr> else r) (colori_prodotti db)"
proof -
  show "prodotti (rinomina_colore now db cod vecchio0 nuovo0) = tocca_prodotto now cod (prodotti db)"
    unfolding rinomina_colore_def Let_def assms(1,2) using assms(3,4) by simp
  show "taglie_prodotti (rinomina_colore now db cod vecchio0 nuovo0) =
           map (\<lambda>r. if codice_prodotto r = cod \<and> colore r = Some vecchio
                      then r\<lparr>colore := Some nuovo\<rparr> else r) (taglie_prodotti db)"
    unfolding rinomina_colore_def Let_def assms(1,2) using assms(3,4) by simp
  have len: "(0 < length (filter (\<lambda>r. cp_codice_prodotto r = cod \<and> cp_colore r = nuovo) (colori_prodotti db)))
               \<longleftrightarrow> nuovo \<in> colori_registrati db cod"
    unfolding colori_registrati_iff length_greater_0_conv filter_empty_conv by blast
  show "nuovo \<in> colori_registrati db cod \<Longrightarrow>
         colori_prodotti (rinomina_colore now db cod vecchio0 nuovo0) =
           filter (\<lambda>r. \<not> (cp_codice_prodotto r = cod \<and> cp_colore r = vecchio)) (colori_prodotti db)"
    unfolding rinomina_colore_def Let_def assms(1,2) len
    using assms(3,4) by simp
  show "nuovo \<notin> colori_registrati db cod \<Longrightarrow>
         colori_prodotti (rinomina_colore now db cod vecchio0 nuovo0) =
           map (\<lambda>r. if cp_codice_prodotto r = cod \<and> cp_colore r = vecchio
                      then r\<lparr>cp_colore := nuovo\<rparr> else r) (colori_prodotti db)"
    unfolding rinomina_colore_def Let_def assms(1,2) len
    using assms(3,4) by simp
qed

lemma tocca_prodotto_updated_at:
  assumes "p \<in> set (tocca_prodotto now cod ps)" and "codice p = cod"
  shows "updated_at p = Some now"
proof -
  from assms(1) obtain q where q: "q \<in> set ps" "p = (if codice q = cod then q\<lparr>updated_at := Some now\<rparr> else q)"
    unfolding tocca_prodotto_def set_map image_iff by blast
  show ?thesis
  proof (cases "codice q = cod")
    case True
    with q show ?thesis by simp
  next
    case False
    with q assms(2) show ?thesis by simp
  qed
qed

lemma sposta_colore_riga:
  "codice_prodotto (if c then r\<lparr>colore := x\<rparr> else r) = codice_prodotto r"
  "taglia (if c then r\<lparr>colore := x\<rparr> else r) = taglia r"
  "quantita (if c then r\<lparr>colore := x\<rparr> else r) = quantita r"
  "colore (if c then r\<lparr>colore := x\<rparr> else r) = (if c then x else colore r)"
  by (cases c; simp)+

lemma sposta_colore_registrato:
  "cp_codice_prodotto (if c then r\<lparr>cp_colore := x\<rparr> else r) = cp_codice_prodotto r"
  "cp_colore (if c then r\<lparr>cp_colore := x\<rparr> else r) = (if c then x else cp_colore r)"
  by (cases c; simp)+

lemma rinomina_colore_taglie_colore:
  assumes "strip (or_empty vecchio0) = vecchio" and "strip (or_empty nuovo0) = nuovo"
    and "vecchio \<noteq> []" and "nuovo \<noteq> []"
  shows "t \<in> taglie_colore (rinomina_colore now db cod vecchio0 nuovo0) cod col \<longleftrightarrow>
           (\<exists>r \<in> set (taglie_prodotti db). codice_prodotto r = cod \<and> taglia r = t
               \<and> (if colore r = Some vecchio then Some nuovo else colore r) = Some col)"
proof -
  have "t \<in> taglie_colore (rinomina_colore now db cod vecchio0 nuovo0) cod col \<longleftrightarrow>
          (\<exists>r \<in> set (taglie_prodotti db).
             codice_prodotto r = cod
           \<and> (if codice_prodotto r = cod \<and> colore r = Some vecchio then Some nuovo else colore r) = Some col
           \<and> taglia r = t)"
    unfolding taglie_colore_iff rinomina_colore_campi(2) [OF assms] set_map bex_simps sposta_colore_riga ..
  also have "\<dots> \<longleftrightarrow> (\<exists>r \<in> set (taglie_prodotti db). codice_prodotto r = cod \<and> taglia r = t
               \<and> (if colore r = Some vecchio then Some nuovo else colore r) = Some col)"
    by (intro bex_cong refl) auto
  finally show ?thesis .
qed

lemma rinomina_colore_fusione:
  assumes "strip (or_empty vecchio0) = vecchio" and "strip (or_empty nuovo0) = nuovo"
    and "vecchio \<noteq> []" and "nuovo \<noteq> []" and "vecchio \<noteq> nuovo"
    and "nuovo \<in> colori_registrati db cod"
  shows "colori_registrati (rinomina_colore now db cod vecchio0 nuovo0) cod = colori_registrati db cod - {vecchio}"
    and "taglie_colore (rinomina_colore now db cod vecchio0 nuovo0) cod vecchio = {}"
    and "taglie_colore (rinomina_colore now db cod vecchio0 nuovo0) cod nuovo
           = taglie_colore db cod nuovo \<union> taglie_colore db cod vecchio"
    and "\<forall>p \<in> set (prodotti (rinomina_colore now db cod vecchio0 nuovo0)). codice p = cod \<longrightarrow> updated_at p = Some now"
proof -
  note campi = rinomina_colore_campi [OF assms(1-4), where now = now and db = db and cod = cod]
  note tc = rinomina_colore_taglie_colore [OF assms(1-4), where now = now and db = db and cod = cod]
  show "colori_registrati (rinomina_colore now db cod vecchio0 nuovo0) cod = colori_registrati db cod - {vecchio}"
  proof (intro set_eqI)
    fix c
    show "c \<in> colori_registrati (rinomina_colore now db cod vecchio0 nuovo0) cod
            \<longleftrightarrow> c \<in> colori_registrati db cod - {vecchio}"
      unfolding colori_registrati_iff Diff_iff campi(3) [OF assms(6)] by auto
  qed
  show "taglie_colore (rinomina_colore now db cod vecchio0 nuovo0) cod vecchio = {}"
  proof (intro set_eqI)
    fix t
    have "t \<notin> taglie_colore (rinomina_colore now db cod vecchio0 nuovo0) cod vecchio"
      unfolding tc using assms(5) by (auto split: if_splits)
    then show "t \<in> taglie_colore (rinomina_colore now db cod vecchio0 nuovo0) cod vecchio \<longleftrightarrow> t \<in> {}"
      by simp
  qed
  show "taglie_colore (rinomina_colore now db cod vecchio0 nuovo0) cod nuovo
           = taglie_colore db cod nuovo \<union> taglie_colore db cod vecchio"
  proof (intro set_eqI)
    fix t
    have "t \<in> taglie_colore (rinomina_colore now db cod vecchio0 nuovo0) cod nuovo \<longleftrightarrow>
            (\<exists>r \<in> set (taglie_prodotti db). codice_prodotto r = cod \<and> taglia r = t
               \<and> (if colore r = Some vecchio then Some nuovo else colore r) = Some nuovo)"
      by (rule tc)
    also have "\<dots> \<longleftrightarrow> (\<exists>r \<in> set (taglie_prodotti db). codice_prodotto r = cod \<and> taglia r = t
               \<and> (colore r = Some nuovo \<or> colore r = Some vecchio))"
      by (intro bex_cong refl conj_cong) simp
    also have "\<dots> \<longleftrightarrow> t \<in> taglie_colore db cod nuovo \<union> taglie_colore db cod vecchio"
      unfolding Un_iff taglie_colore_iff by blast
    finally show "t \<in> taglie_colore (rinomina_colore now db cod vecchio0 nuovo0) cod nuovo
            \<longleftrightarrow> t \<in> taglie_colore db cod nuovo \<union> taglie_colore db cod vecchio" .
  qed
  show "\<forall>p \<in> set (prodotti (rinomina_colore now db cod vecchio0 nuovo0)). codice p = cod \<longrightarrow> updated_at p = Some now"
    unfolding campi(1) using tocca_prodotto_updated_at by blast
qed

lemma rinomina_colore_sul_posto:
  assumes "strip (or_empty vecchio0) = vecchio" and "strip (or_empty nuovo0) = nuovo"
    and "vecchio \<noteq> []" and "nuovo \<noteq> []"
    and "nuovo \<notin> colori_registrati db cod"
  shows "colori_registrati (rinomina_colore now db cod vecchio0 nuovo0) cod
           = (\<lambda>c. if c = vecchio then nuovo else c) ` colori_registrati db cod"
    and "\<forall>p \<in> set (prodotti (rinomina_colore now db cod vecchio0 nuovo0)). codice p = cod \<longrightarrow> updated_at p = Some now"
proof -
  note campi = rinomina_colore_campi [OF assms(1-4), where now = now and db = db and cod = cod]
  show "colori_registrati (rinomina_colore now db cod vecchio0 nuovo0) cod
           = (\<lambda>c. if c = vecchio then nuovo else c) ` colori_registrati db cod"
  proof (intro set_eqI)
    fix c
    have "c \<in> colori_registrati (rinomina_colore now db cod vecchio0 nuovo0) cod \<longleftrightarrow>
            (\<exists>r \<in> set (colori_prodotti db). cp_codice_prodotto r = cod
               \<and> (if cp_codice_prodotto r = cod \<and> cp_colore r = vecchio then nuovo else cp_colore r) = c)"
      unfolding colori_registrati_iff campi(4) [OF assms(5)] set_map bex_simps sposta_colore_registrato ..
    also have "\<dots> \<longleftrightarrow> (\<exists>r \<in> set (colori_prodotti db). cp_codice_prodotto r = cod
               \<and> c = (if cp_colore r = vecchio then nuovo else cp_colore r))"
      by (intro bex_cong refl conj_cong) auto
    also have "\<dots> \<longleftrightarrow> (\<exists>x. x \<in> colori_registrati db cod \<and> c = (if x = vecchio then nuovo else x))"
      unfolding colori_registrati_iff by blast
    also have "\<dots> \<longleftrightarrow> c \<in> (\<lambda>c. if c = vecchio then nuovo else c) ` colori_registrati db cod"
      unfolding image_iff Bex_def ..
    finally show "c \<in> colori_registrati (rinomina_colore now db cod vecchio0 nuovo0) cod
            \<longleftrightarrow> c \<in> (\<lambda>c. if c = vecchio then nuovo else c) ` colori_registrati db cod" .
  qed
  show "\<forall>p \<in> set (prodotti (rinomina_colore now db cod vecchio0 nuovo0)). codice p = cod \<longrightarrow> updated_at p = Some now"
    unfolding campi(1) using tocca_prodotto_updated_at by blast
qed

subsection \<open>Operations that keep the stock colours in normal form\<close>

text \<open>In a table whose stock colours are in normal form, a cell that exists for a label
  exists under the normal form of that label, which is the label itself
  (\<open>cella_colore_normale\<close>).\<close>

lemma colore_normale_default: "colore_normale (Some (colore_o_default c))"
  by (simp add: colore_normale_def colore_o_default_idem)

lemma colore_normale_strip: "strip s \<noteq> [] \<Longrightarrow> colore_normale (Some (strip s))"
  by (simp add: colore_normale_def colore_o_default_strip)

lemma cella_colore_normale:
  assumes "colori_stock_normali db" and "quantita_cella db cod c t = Some q"
  shows "colore_o_default (Some c) = c"
proof -
  from assms(2) obtain z where "select_quantita (taglie_prodotti db) cod c t = Some z"
    by (auto simp: quantita_cella_def)
  then obtain r rs where "filter (cella cod c t) (taglie_prodotti db) = r # rs"
    unfolding select_quantita_Some by blast
  then have "r \<in> set (filter (cella cod c t) (taglie_prodotti db))" by simp
  then have r: "r \<in> set (taglie_prodotti db)" "colore r = Some c" by (simp_all add: cella_def)
  from assms(1) r(1) have "colore_normale (colore r)" unfolding colori_stock_normali_def by blast
  with r(2) show ?thesis by (simp add: colore_normale_def)
qed

lemma normali_quantita_update:
  assumes "\<forall>r \<in> set ts. colore_normale (colore r)"
  shows "\<forall>r \<in> set (map (\<lambda>r. if P r then r\<lparr>quantita := v r\<rparr> else r) ts). colore_normale (colore r)"
proof
  fix r' assume "r' \<in> set (map (\<lambda>r. if P r then r\<lparr>quantita := v r\<rparr> else r) ts)"
  then obtain r where r: "r \<in> set ts" "r' = (if P r then r\<lparr>quantita := v r\<rparr> else r)" by auto
  from r(2) have "colore r' = colore r" by (cases "P r") simp_all
  with assms r(1) show "colore_normale (colore r')" by simp
qed

lemma normali_colore_update:
  assumes "\<forall>r \<in> set ts. colore_normale (colore r)" and "colore_normale (Some col)"
  shows "\<forall>r \<in> set (map (\<lambda>r. if P r then r\<lparr>colore := Some col\<rparr> else r) ts). colore_normale (colore r)"
proof
  fix r' assume "r' \<in> set (map (\<lambda>r. if P r then r\<lparr>colore := Some col\<rparr> else r) ts)"
  then obtain r where r: "r \<in> set ts" "r' = (if P r then r\<lparr>colore := Some col\<rparr> else r)" by auto
  show "colore_normale (colore r')"
  proof (cases "P r")
    case True
    with r(2) assms(2) show ?thesis by simp
  next
    case False
    with r assms(1) show ?thesis by simp
  qed
qed

lemma ensure_stock_colore_stock_normali:
  assumes "colori_stock_normali db"
  shows "colori_stock_normali (ensure_stock_colore now db cod c tipo)"
proof -
  obtain nuove where n: "taglie_prodotti (ensure_stock_colore now db cod c tipo) = taglie_prodotti db @ nuove"
    "\<forall>r \<in> set nuove. codice_prodotto r = cod \<and> colore r = Some (colore_o_default c)
            \<and> taglia r \<in> set (taglie_for_tipo tipo) \<and> quantita r = Some 0"
    using ensure_stock_colore_append by blast
  from n(2) have "\<forall>r \<in> set nuove. colore_normale (colore r)"
    by (simp add: colore_normale_default)
  with assms show ?thesis unfolding colori_stock_normali_def n(1) by auto
qed

lemma reset_stock_prodotto_stock_normali:
  assumes "colori_stock_normali db"
  shows "colori_stock_normali (reset_stock_prodotto now db cod tipo)"
proof -
  have step: "colori_stock_normali (foldl (\<lambda>d c. ensure_stock_colore now d cod (Some c) tipo) d cs)"
    if "colori_stock_normali d" for d cs
    using that by (induction cs rule: rev_induct) (simp_all add: ensure_stock_colore_stock_normali)
  have "colori_stock_normali (db\<lparr>taglie_prodotti := filter (\<lambda>r. codice_prodotto r \<noteq> cod) (taglie_prodotti db)\<rparr>)"
    using assms by (simp add: colori_stock_normali_def)
  then show ?thesis
    unfolding reset_stock_prodotto_def Let_def by (rule step)
qed

lemma carica_stock_colore_stock_normali:
  assumes "colori_stock_normali db"
  shows "colori_stock_normali (snd (carica_stock_colore now db cod c t qty))"
  using carica_stock_colore_taglie [of now db cod c t qty]
proof
  assume "taglie_prodotti (snd (carica_stock_colore now db cod c t qty)) = taglie_prodotti db"
  with assms show ?thesis by (simp add: colori_stock_normali_def)
next
  assume "1 \<le> qty \<and> taglie_prodotti (snd (carica_stock_colore now db cod c t qty)) =
         map (\<lambda>r. if cella cod (colore_o_default c) t r
                    then r\<lparr>quantita := Some (somma_sqlite (or_zero (quantita r)) qty)\<rparr> else r) (taglie_prodotti db)"
  then show ?thesis
    unfolding colori_stock_normali_def
    using normali_quantita_update [OF assms [unfolded colori_stock_normali_def]] by simp
qed

lemma scarica_vendita_colore_stock_normali:
  assumes "colori_stock_normali db"
  shows "colori_stock_normali (snd (scarica_vendita_colore now db cod c t qty))"
  using scarica_vendita_colore_taglie [of now db cod c t qty]
proof
  assume "taglie_prodotti (snd (scarica_vendita_colore now db cod c t qty)) = taglie_prodotti db"
  with assms show ?thesis by (simp add: colori_stock_normali_def)
next
  assume "\<exists>nuova_q. 0 \<le> nuova_q \<and> taglie_prodotti (snd (scarica_vendita_colore now db cod c t qty)) =
         map (\<lambda>r. if cella cod (colore_o_default c) t r
                    then r\<lparr>quantita := Some nuova_q\<rparr> else r) (taglie_prodotti db)"
  then show ?thesis
    unfolding colori_stock_normali_def
    using normali_quantita_update [OF assms [unfolded colori_stock_normali_def]] by auto
qed

lemma aggiorna_taglia_colore_stock_normali:
  assumes "colori_stock_normali db"
  shows "colori_stock_normali (aggiorna_taglia_colore now db cod c t n)"
proof (cases "int64 n")
  case True
  then show ?thesis
    unfolding colori_stock_normali_def aggiorna_taglia_colore_def Let_def
    using normali_quantita_update [OF assms [unfolded colori_stock_normali_def]] by simp
next
  case False
  with assms show ?thesis by (simp add: aggiorna_taglia_colore_def Let_def)
qed

lemma set_stock_righe_stock_normali:
  assumes "colore_normale (Some col)"
  shows "\<forall>r \<in> set ts. colore_normale (colore r) \<Longrightarrow> set_stock_righe cod col mappa ts = Some ts' \<Longrightarrow>
         \<forall>r \<in> set ts'. colore_normale (colore r)"
proof (induction mappa arbitrary: ts)
  case Nil
  then show ?case by simp
next
  case (Cons x rest)
  obtain taglia0 qta where x: "x = (taglia0, qta)" by (cases x)
  define t where "t = strip (or_empty taglia0)"
  define q where "q = (let q0 = (case qta of None \<Rightarrow> 0 | Some n \<Rightarrow> n) in if q0 < 0 then (0::int) else q0)"
  have a: "\<forall>r \<in> set (ts @ [\<lparr>codice_prodotto = cod, colore = Some col, taglia = t, quantita = Some q\<rparr>]).
                  colore_normale (colore r)"
    using Cons.prems(1) assms by simp
  have b: "\<forall>r \<in> set (map (\<lambda>r. if cella cod col t r then r\<lparr>quantita := Some q\<rparr> else r) ts).
                  colore_normale (colore r)"
    using Cons.prems(1) by (rule normali_quantita_update)
  have step: "set_stock_righe cod col (x # rest) ts =
          (if t = [] then set_stock_righe cod col rest ts
           else if \<not> int64 q then None
           else if length (filter (cella cod col t) ts) = 0
                then set_stock_righe cod col rest
                       (ts @ [\<lparr>codice_prodotto = cod, colore = Some col, taglia = t, quantita = Some q\<rparr>])
                else set_stock_righe cod col rest
                       (map (\<lambda>r. if cella cod col t r then r\<lparr>quantita := Some q\<rparr> else r) ts))"
    unfolding x t_def q_def by (rule set_stock_righe_passo)
  consider (skip) "set_stock_righe cod col rest ts = Some ts'"
    | (ins) "set_stock_righe cod col rest
               (ts @ [\<lparr>codice_prodotto = cod, colore = Some col, taglia = t, quantita = Some q\<rparr>]) = Some ts'"
    | (upd) "set_stock_righe cod col rest
               (map (\<lambda>r. if cella cod col t r then r\<lparr>quantita := Some q\<rparr> else r) ts) = Some ts'"
    using Cons.prems(2) unfolding step by (auto split: if_splits)
  then show ?case
  proof cases
    case skip
    from Cons.IH [OF Cons.prems(1) this] show ?thesis .
  next
    case ins
    from Cons.IH [OF a this] show ?thesis .
  next
    case upd
    from Cons.IH [OF b this] show ?thesis .
  qed
qed

lemma set_stock_colore_stock_normali:
  assumes "colori_stock_normali db"
  shows "colori_stock_normali (set_stock_colore db cod c mappa)"
proof (cases "set_stock_righe cod (colore_o_default c) mappa (taglie_prodotti db)")
  case None
  with assms show ?thesis by (simp add: set_stock_colore_def)
next
  case (Some ts')
  from assms have "\<forall>r \<in> set (taglie_prodotti db). colore_normale (colore r)"
    by (simp add: colori_stock_normali_def)
  from set_stock_righe_stock_normali [OF colore_normale_default this Some] Some show ?thesis
    by (simp add: set_stock_colore_def colori_stock_normali_def)
qed

lemma rinomina_colore_stock_normali:
  assumes "colori_stock_normali db"
  shows "colori_stock_normali (rinomina_colore now db cod vecchio0 nuovo0)"
proof (cases "strip (or_empty vecchio0) = [] \<or> strip (or_empty nuovo0) = []")
  case True
  then have "rinomina_colore now db cod vecchio0 nuovo0 = db"
    unfolding rinomina_colore_def Let_def by (rule if_P)
  with assms show ?thesis by simp
next
  case False
  then have ne: "strip (or_empty vecchio0) \<noteq> []" "strip (or_empty nuovo0) \<noteq> []" by simp_all
  show ?thesis
    unfolding colori_stock_normali_def rinomina_colore_campi(2) [OF refl refl ne]
    using assms [unfolded colori_stock_normali_def] colore_normale_strip [OF ne(2)]
    by (rule normali_colore_update)
qed

lemma migra_prodotti_stock_normali:
  "\<forall>r \<in> set ts. colore_normale (colore r) \<Longrightarrow> migra_prodotti g righe cs ts = Some (cs', ts') \<Longrightarrow>
   \<forall>r \<in> set ts'. colore_normale (colore r)"
proof (induction righe arbitrary: cs ts)
  case Nil
  then show ?case by simp
next
  case (Cons x righe)
  obtain cod leg where x: "x = (cod, leg)" by (cases x)
  have a: "\<forall>r \<in> set (map (\<lambda>r. if codice_prodotto r = cod \<and> colore_vuoto (colore r)
                       then r\<lparr>colore := Some (colore_o_default (Some leg))\<rparr> else r) ts).
        colore_normale (colore r)"
    using Cons.prems(1) colore_normale_default by (rule normali_colore_update)
  show ?case
  proof (cases "g cod")
    case Nessun_guasto
    with Cons.prems(2) have "migra_prodotti g righe
        (insert_or_ignore_colore cod (colore_o_default (Some leg)) cs)
        (map (\<lambda>r. if codice_prodotto r = cod \<and> colore_vuoto (colore r)
                   then r\<lparr>colore := Some (colore_o_default (Some leg))\<rparr> else r) ts) = Some (cs', ts')"
      unfolding x by (simp add: Let_def)
    from Cons.IH [OF a this] show ?thesis .
  next
    case Guasto_insert
    with Cons.prems show ?thesis unfolding x by (simp add: Let_def)
  next
    case Guasto_update
    with Cons.prems show ?thesis unfolding x by (simp add: Let_def)
  next
    case Guasto_annulla
    with Cons.prems show ?thesis unfolding x by (simp add: Let_def)
  qed
qed

lemma migrazione_dati_stock_normali:
  assumes "colori_stock_normali db"
  shows "colori_stock_normali (migrazione_dati g db)"
proof (cases "migra_prodotti g (map (\<lambda>p. (codice p, or_empty (colore_legacy p))) (prodotti db))
                (colori_prodotti db) (taglie_prodotti db)")
  case None
  with assms show ?thesis by (simp add: migrazione_dati_def)
next
  case (Some a)
  obtain cs' ts' where a: "a = (cs', ts')" by (cases a)
  from assms have "\<forall>r \<in> set (taglie_prodotti db). colore_normale (colore r)"
    by (simp add: colori_stock_normali_def)
  from migra_prodotti_stock_normali [OF this Some [unfolded a]] Some a show ?thesis
    by (simp add: migrazione_dati_def colori_stock_normali_def)
qed

section \<open>Claims\<close>

subsection \<open>C1: selling\<close>

text \<open>
  Claim C1 as written lets the sold counter grow by exactly the request at every sale
  that succeeds. The counter is an INTEGER of SQLite. In the example with the counter at
  9223372036854775807, the largest INTEGER, the sale of 2 of the 3 of \<open>Rosso\<close> succeeds
  and returns 1, and the counter then reads 9223372036854775808: SQLite has stored the
  sum as a REAL, and it is one more than before, not two. The claim also takes a current
  quantity of any size: after two loads of 9223372036854775807 the cell of \<open>Blu\<close> holds
  the REAL 18446744073709551616, and the sale of 1 raises \<open>OverflowError\<close> when it binds
  the new quantity, and changes nothing.
\<close>

theorem C1_sell_counterexample:
  "quantita_cella db_venduti_max ''P1'' ''Rosso'' ''42'' = Some 3
   \<and> venduti_prodotto db_venduti_max ''P1'' = Some 9223372036854775807
   \<and> fst (scarica_vendita_colore ''t1'' db_venduti_max ''P1'' (Some ''Rosso'') ''42'' 2) = Inr 1
   \<and> venduti_prodotto (snd (scarica_vendita_colore ''t1'' db_venduti_max ''P1'' (Some ''Rosso'') ''42'' 2)) ''P1''
        = Some 9223372036854775808
   \<and> quantita_cella db_due_carichi ''P1'' ''Blu'' ''42'' = Some 18446744073709551616
   \<and> scarica_vendita_colore ''t1'' db_due_carichi ''P1'' (Some ''Blu'') ''42'' 1
        = (Inl OverflowError, db_due_carichi)"
  by code_simp

text \<open>
  Claim C1, as amended. Let a stock cell exist for the product, the colour and the size,
  with current quantity \<open>q\<close>, and let the requested quantity be at least 1. The cell of a
  colour argument is the one under its label as \<open>scarica_vendita_colore\<close> normalises it
  (trimmed, \<open>DEFAULT\<close> when blank or missing). That is the label itself for every label
  under which the backend stores a row (\<open>cella_colore_normale\<close>). If \<open>q\<close> is less than
  the request, the sale raises \<open>ValueError\<close> with the insufficient stock message, which
  holds both amounts, and the database is unchanged. Otherwise, \<open>q\<close> being an INTEGER
  (at most \<open>2^63 - 1\<close>), the sale returns \<open>q - qty\<close> and the cell holds \<open>q - qty\<close>; the
  sold counter of the product has grown by exactly the request when the counter and the
  counter plus the request are within the 64-bit range; and a product without row has
  no counter before or after.
\<close>

theorem C1_sell:
  assumes "1 \<le> qty" and "quantita_cella db cod (colore_o_default c) t = Some q"
  shows "(q < qty \<longrightarrow>
            scarica_vendita_colore now db cod c t qty = (Inl (ValueError (Stock_insufficiente q qty)), db))
       \<and> (qty \<le> q \<and> q \<le> 2 ^ 63 - 1 \<longrightarrow>
            fst (scarica_vendita_colore now db cod c t qty) = Inr (q - qty)
          \<and> quantita_cella (snd (scarica_vendita_colore now db cod c t qty)) cod (colore_o_default c) t = Some (q - qty)
          \<and> (\<forall>v. venduti_prodotto db cod = Some v \<and> int64 v \<and> int64 (v + qty) \<longrightarrow>
                venduti_prodotto (snd (scarica_vendita_colore now db cod c t qty)) cod = Some (v + qty))
          \<and> (venduti_prodotto db cod = None \<longrightarrow>
                venduti_prodotto (snd (scarica_vendita_colore now db cod c t qty)) cod = None))"
proof (intro conjI impI allI)
  assume "q < qty"
  with assms show "scarica_vendita_colore now db cod c t qty = (Inl (ValueError (Stock_insufficiente q qty)), db)"
    by (rule scarica_insufficiente)
next
  assume "qty \<le> q \<and> q \<le> 2 ^ 63 - 1"
  then have le: "qty \<le> q" and up: "q \<le> 2 ^ 63 - 1" by simp_all
  from scarica_ok [OF assms le up, of now] obtain db' where
    r: "scarica_vendita_colore now db cod c t qty = (Inr (q - qty), db')"
       "quantita_cella db' cod (colore_o_default c) t = Some (q - qty)"
       "venduti_prodotto db' cod = map_option (\<lambda>v. somma_sqlite v qty) (venduti_prodotto db cod)"
    by blast
  from r show "fst (scarica_vendita_colore now db cod c t qty) = Inr (q - qty)" by simp
  from r show "quantita_cella (snd (scarica_vendita_colore now db cod c t qty)) cod (colore_o_default c) t = Some (q - qty)" by simp
  {
    fix v
    assume "venduti_prodotto db cod = Some v \<and> int64 v \<and> int64 (v + qty)"
    with r show "venduti_prodotto (snd (scarica_vendita_colore now db cod c t qty)) cod = Some (v + qty)"
      by (simp add: somma_sqlite_esatta)
  }
  {
    assume "venduti_prodotto db cod = None"
    with r show "venduti_prodotto (snd (scarica_vendita_colore now db cod c t qty)) cod = None"
      by simp
  }
qed

text \<open>The example of claim C1: 10 asked of 2 is refused, 2 sold of 3 leaves 1 and takes
  the counter from 0 to 2.\<close>

theorem C1_sell_witness:
  "scarica_vendita_colore ''t1'' db_esempio ''P1'' (Some ''Blu'') ''42'' 10
     = (Inl (ValueError (Stock_insufficiente 2 10)), db_esempio)
   \<and> fst (scarica_vendita_colore ''t1'' db_esempio ''P1'' (Some ''Rosso'') ''42'' 2) = Inr 1
   \<and> quantita_cella (snd (scarica_vendita_colore ''t1'' db_esempio ''P1'' (Some ''Rosso'') ''42'' 2)) ''P1'' ''Rosso'' ''42'' = Some 1
   \<and> venduti_prodotto (snd (scarica_vendita_colore ''t1'' db_esempio ''P1'' (Some ''Rosso'') ''42'' 2)) ''P1'' = Some 2"
proof -
  have blu: "colore_o_default (Some ''Blu'') = ''Blu''" and rosso: "colore_o_default (Some ''Rosso'') = ''Rosso''"
    by code_simp+
  have q1: "quantita_cella db_esempio ''P1'' (colore_o_default (Some ''Blu'')) ''42'' = Some 2"
    by code_simp
  have q2: "quantita_cella db_esempio ''P1'' (colore_o_default (Some ''Rosso'')) ''42'' = Some 3"
    by code_simp
  have v: "venduti_prodotto db_esempio ''P1'' = Some 0"
    by code_simp
  have i: "int64 0" "int64 2" by (simp_all add: int64_def)
  have "(1::int) \<le> 10" and "(1::int) \<le> 2" by simp_all
  from C1_sell [OF \<open>(1::int) \<le> 10\<close> q1, of "''t1''"] C1_sell [OF \<open>(1::int) \<le> 2\<close> q2, of "''t1''"]
  show ?thesis by (simp add: rosso v i)
qed

subsection \<open>C2: negative quantities\<close>

text \<open>
  Claim C2 says that no operation writes a negative quantity. This holds for
  \<open>ensure_stock_colore\<close>, \<open>reset_stock_prodotto\<close>, \<open>carica_stock_colore\<close>,
  \<open>scarica_vendita_colore\<close>, \<open>set_stock_colore\<close>, \<open>rinomina_colore\<close> and the migration
  (the lemmas named \<open>_non_negative\<close> above). It fails for \<open>aggiorna_taglia_colore\<close>,
  which writes the quantity it is given: in the example, where no quantity is negative,
  setting the cell of \<open>Blu\<close> and size 42 to \<open>-5\<close> leaves \<open>-5\<close> in the table.
\<close>

theorem C2_aggiorna_taglia_colore:
  "quantita_cella db_esempio ''P1'' ''Blu'' ''42'' = Some 2
   \<and> map quantita (taglie_prodotti (aggiorna_taglia_colore ''t1'' db_esempio ''P1'' (Some ''Blu'') ''42'' (- 5)))
        = [Some 7, Some 3, Some (- 5)]"
  by code_simp

subsection \<open>C3: reconciliation\<close>

text \<open>
  Claim C3 as written says that after \<open>ensure_stock_colore\<close> the sizes of the colour are
  exactly the canonical labels of the scheme. The function only adds rows. In the example
  the colour \<open>Blu\<close> has a row of size 42; reconciled with the letter scheme it keeps that
  row, and 42 is no letter size.
\<close>

theorem C3_reconcile_counterexample:
  "''42'' \<in> taglie_colore (ensure_stock_colore ''t1'' db_esempio ''P1'' (Some ''Blu'') (Some ''LETTERE'')) ''P1'' ''Blu''
   \<and> ''42'' \<notin> set (taglie_for_tipo (Some ''LETTERE''))
   \<and> taglie_colore (ensure_stock_colore ''t1'' db_esempio ''P1'' (Some ''Blu'') (Some ''LETTERE'')) ''P1'' ''Blu''
        \<noteq> set (taglie_for_tipo (Some ''LETTERE''))"
proof -
  have a: "''42'' \<in> taglie_colore (ensure_stock_colore ''t1'' db_esempio ''P1'' (Some ''Blu'') (Some ''LETTERE'')) ''P1'' ''Blu''"
    by code_simp
  have b: "''42'' \<notin> set (taglie_for_tipo (Some ''LETTERE''))"
    by code_simp
  from a b show ?thesis by auto
qed

text \<open>
  Claim C3, as amended. For every product, colour and scheme tag, with the colour
  normalised (trimmed, \<open>DEFAULT\<close> when blank or missing): after \<open>ensure_stock_colore\<close> a
  stock cell exists for every canonical label of the scheme; the sizes of the colour are
  the sizes it had before together with the canonical labels; every row that existed
  before is still there unchanged and the rows added have quantity 0; the colour is
  registered for the product; and a second call with the same arguments changes no
  colour registration and no stock row: all it does is write the modification time of the
  product again.
\<close>

theorem C3_reconcile:
  "(\<forall>t \<in> set (taglie_for_tipo tipo).
       select_quantita (taglie_prodotti (ensure_stock_colore now db cod c tipo)) cod (colore_o_default c) t \<noteq> None)
   \<and> taglie_colore (ensure_stock_colore now db cod c tipo) cod (colore_o_default c)
        = taglie_colore db cod (colore_o_default c) \<union> set (taglie_for_tipo tipo)
   \<and> (\<exists>nuove. taglie_prodotti (ensure_stock_colore now db cod c tipo) = taglie_prodotti db @ nuove
          \<and> (\<forall>r \<in> set nuove. quantita r = Some 0))
   \<and> colore_o_default c \<in> colori_registrati (ensure_stock_colore now db cod c tipo) cod
   \<and> ensure_stock_colore now' (ensure_stock_colore now db cod c tipo) cod c tipo
        = (ensure_stock_colore now db cod c tipo)
            \<lparr>prodotti := tocca_prodotto now' cod (prodotti (ensure_stock_colore now db cod c tipo))\<rparr>"
proof (intro conjI)
  show "\<forall>t \<in> set (taglie_for_tipo tipo).
       select_quantita (taglie_prodotti (ensure_stock_colore now db cod c tipo)) cod (colore_o_default c) t \<noteq> None"
    by (simp add: select_quantita_None ensure_stock_colore_cella)
  show "taglie_colore (ensure_stock_colore now db cod c tipo) cod (colore_o_default c)
        = taglie_colore db cod (colore_o_default c) \<union> set (taglie_for_tipo tipo)"
    by (rule ensure_stock_colore_taglie)
  show "\<exists>nuove. taglie_prodotti (ensure_stock_colore now db cod c tipo) = taglie_prodotti db @ nuove
          \<and> (\<forall>r \<in> set nuove. quantita r = Some 0)"
    using ensure_stock_colore_append [of now db cod c tipo] by blast
  show "colore_o_default c \<in> colori_registrati (ensure_stock_colore now db cod c tipo) cod"
    using insert_or_ignore_colore_registra [of cod "colore_o_default c" "colori_prodotti db"]
    by (force simp: colori_registrati_def ensure_stock_colore_colori)
  have "prodotti (ensure_stock_colore now db cod c tipo) = tocca_prodotto now cod (prodotti db)"
    by (simp add: ensure_stock_colore_def Let_def)
  then show "ensure_stock_colore now' (ensure_stock_colore now db cod c tipo) cod c tipo
        = (ensure_stock_colore now db cod c tipo)
            \<lparr>prodotti := tocca_prodotto now' cod (prodotti (ensure_stock_colore now db cod c tipo))\<rparr>"
    by (simp add: ensure_stock_colore_idem tocca_prodotto_tocca)
qed

text \<open>The example of claim C3: \<open>Blu\<close> reconciled with the numeric scheme, which its one
  row of size 42 fits.\<close>

theorem C3_reconcile_witness:
  "select_quantita (taglie_prodotti (ensure_stock_colore ''t1'' db_esempio ''P1'' (Some ''Blu'') (Some ''NUMERI''))) ''P1'' ''Blu'' ''38'' \<noteq> None
   \<and> taglie_colore (ensure_stock_colore ''t1'' db_esempio ''P1'' (Some ''Blu'') (Some ''NUMERI'')) ''P1'' ''Blu''
        = set (taglie_for_tipo (Some ''NUMERI''))
   \<and> ''Blu'' \<in> colori_registrati (ensure_stock_colore ''t1'' db_esempio ''P1'' (Some ''Blu'') (Some ''NUMERI'')) ''P1''
   \<and> ensure_stock_colore ''t1'' (ensure_stock_colore ''t1'' db_esempio ''P1'' (Some ''Blu'') (Some ''NUMERI'')) ''P1'' (Some ''Blu'') (Some ''NUMERI'')
        = ensure_stock_colore ''t1'' db_esempio ''P1'' (Some ''Blu'') (Some ''NUMERI'')"
proof -
  have blu: "colore_o_default (Some ''Blu'') = ''Blu''" by code_simp
  have t: "''38'' \<in> set (taglie_for_tipo (Some ''NUMERI''))" by code_simp
  have prima: "taglie_colore db_esempio ''P1'' ''Blu'' \<union> set (taglie_for_tipo (Some ''NUMERI'')) = set (taglie_for_tipo (Some ''NUMERI''))"
    by code_simp
  have same: "(ensure_stock_colore ''t1'' db_esempio ''P1'' (Some ''Blu'') (Some ''NUMERI''))
            \<lparr>prodotti := tocca_prodotto ''t1'' ''P1'' (prodotti (ensure_stock_colore ''t1'' db_esempio ''P1'' (Some ''Blu'') (Some ''NUMERI'')))\<rparr>
         = ensure_stock_colore ''t1'' db_esempio ''P1'' (Some ''Blu'') (Some ''NUMERI'')"
    by (simp add: ensure_stock_colore_def Let_def tocca_prodotto_tocca)
  from C3_reconcile [of "Some ''NUMERI''" "''t1''" db_esempio "''P1''" "Some ''Blu''" "''t1''"] t
  show ?thesis by (simp add: blu prima same)
qed

subsection \<open>C4: reset on a change of scheme\<close>

text \<open>
  Claim C4. Let the colours registered for the product be in normal form, as every
  colour is that the backend registers (the lemmas named \<open>_normali\<close> above). After
  \<open>reset_stock_prodotto\<close> every stock row of the product has quantity 0, for every colour
  registered before the call the sizes of its rows are exactly the canonical labels of the
  scheme, and the colours registered for the product are the same as before.
\<close>

theorem C4_reset:
  assumes "\<forall>col \<in> colori_registrati db cod. colore_o_default (Some col) = col"
  shows "(\<forall>r \<in> set (righe_prodotto (reset_stock_prodotto now db cod tipo) cod). quantita r = Some 0)
       \<and> (\<forall>col \<in> colori_registrati db cod.
             taglie_colore (reset_stock_prodotto now db cod tipo) cod col = set (taglie_for_tipo tipo))
       \<and> colori_registrati (reset_stock_prodotto now db cod tipo) cod = colori_registrati db cod"
proof -
  define cs where "cs = select_colori (colori_prodotti db) cod"
  define d0 where "d0 = db\<lparr>taglie_prodotti := filter (\<lambda>r. codice_prodotto r \<noteq> cod) (taglie_prodotti db)\<rparr>"
  define d where "d = foldl (\<lambda>d c. ensure_stock_colore now d cod (Some c) tipo) d0 cs"
  define tgs where "tgs = taglie_for_tipo tipo"
  have run: "reset_stock_prodotto now db cod tipo = d"
    by (simp add: reset_stock_prodotto_def Let_def d_def d0_def cs_def)
  have set_cs: "set cs = colori_registrati db cod"
    by (simp add: set_select_colori colori_registrati_def cs_def)
  have norm: "\<forall>c \<in> set cs. colore_o_default (Some c) = c"
    using assms set_cs by simp
  obtain nuove where n1: "taglie_prodotti d = taglie_prodotti d0 @ nuove"
    and n2: "\<forall>r \<in> set nuove. codice_prodotto r = cod \<and> (\<exists>c \<in> set cs. colore r = Some c)
            \<and> taglia r \<in> set tgs \<and> quantita r = Some 0"
    using foldl_ensure_append [OF norm, of now cod tipo d0] unfolding d_def tgs_def by blast
  have d0: "filter (\<lambda>r. codice_prodotto r = cod) (taglie_prodotti d0) = []"
    by (simp add: d0_def)
  have righe: "righe_prodotto d cod = filter (\<lambda>r. codice_prodotto r = cod) nuove"
    by (simp add: righe_prodotto_def n1 d0)
  have zero: "\<forall>r \<in> set (righe_prodotto d cod). quantita r = Some 0"
    using n2 by (simp add: righe)
  have d0': "filter (\<lambda>r. codice_prodotto r = cod \<and> colore r = Some col) (taglie_prodotti d0) = []" for col
    by (simp add: d0_def)
  have sizes: "\<forall>col \<in> colori_registrati db cod. taglie_colore d cod col = set tgs"
  proof
    fix col assume col: "col \<in> colori_registrati db cod"
    have "taglie_colore d cod col \<subseteq> set tgs"
      using n2 by (auto simp: taglie_colore_def n1 d0')
    moreover have "set tgs \<subseteq> taglie_colore d cod col"
    proof
      fix t assume "t \<in> set tgs"
      then have "filter (cella cod col t) (taglie_prodotti d) \<noteq> []"
        using foldl_ensure_cella [OF norm, of col t tipo cod now d0] col set_cs
        unfolding d_def tgs_def by simp
      then obtain r where "r \<in> set (taglie_prodotti d)" "cella cod col t r"
        by (auto simp: filter_empty_conv)
      then show "t \<in> taglie_colore d cod col"
        by (force simp: taglie_colore_def cella_def)
    qed
    ultimately show "taglie_colore d cod col = set tgs" by blast
  qed
  have "\<forall>c \<in> set cs. \<exists>r \<in> set (colori_prodotti d0). cp_codice_prodotto r = cod \<and> cp_colore r = c"
    by (auto simp: set_select_colori cs_def d0_def)
  then have "colori_prodotti d = colori_prodotti d0"
    unfolding d_def by (rule foldl_ensure_colori [OF norm])
  then have colori: "colori_registrati d cod = colori_registrati db cod"
    by (simp add: colori_registrati_def d0_def)
  from zero sizes colori show ?thesis unfolding run tgs_def by blast
qed

text \<open>The example of claim C4: the product of the example reset to the letter scheme.\<close>

theorem C4_reset_witness:
  "taglie_colore (reset_stock_prodotto ''t1'' db_esempio ''P1'' (Some ''LETTERE'')) ''P1'' ''Rosso''
     = set (taglie_for_tipo (Some ''LETTERE''))
   \<and> colori_registrati (reset_stock_prodotto ''t1'' db_esempio ''P1'' (Some ''LETTERE'')) ''P1''
     = colori_registrati db_esempio ''P1''
   \<and> quantita_cella (reset_stock_prodotto ''t1'' db_esempio ''P1'' (Some ''LETTERE'')) ''P1'' ''Rosso'' ''M'' = Some 0"
proof -
  have h: "\<forall>col \<in> colori_registrati db_esempio ''P1''. colore_o_default (Some col) = col"
    by code_simp
  have r: "''Rosso'' \<in> colori_registrati db_esempio ''P1''" by code_simp
  have q: "quantita_cella (reset_stock_prodotto ''t1'' db_esempio ''P1'' (Some ''LETTERE'')) ''P1'' ''Rosso'' ''M'' = Some 0"
    by code_simp
  from C4_reset [OF h, of "''t1''" "Some ''LETTERE''"] r q show ?thesis by blast
qed

subsection \<open>C5: rejected loads and sales\<close>

text \<open>
  Claim C5 as written takes the colour as given. It fails for a blank colour: in the
  example no row has the empty label, so no stock cell exists for the product, the empty
  colour and size 42; yet the load of 1 returns 8 and the sale of 1 returns 6, both on the
  cell of \<open>DEFAULT\<close>.
\<close>

theorem C5_reject_counterexample:
  "select_quantita (taglie_prodotti db_esempio) ''P1'' [] ''42'' = None
   \<and> fst (carica_stock_colore ''t1'' db_esempio ''P1'' (Some []) ''42'' 1) = Inr 8
   \<and> quantita_cella (snd (carica_stock_colore ''t1'' db_esempio ''P1'' (Some []) ''42'' 1)) ''P1'' ''DEFAULT'' ''42'' = Some 8
   \<and> fst (scarica_vendita_colore ''t1'' db_esempio ''P1'' (Some []) ''42'' 1) = Inr 6"
  by code_simp

text \<open>
  Claim C5, as amended. For every product, colour, size and quantity \<open>qty \<le> 0\<close>, the load
  and the sale both raise \<open>ValueError\<close> with the minimum quantity message and leave the
  database as it was. For every \<open>qty \<ge> 1\<close>, both raise \<open>ValueError\<close> with the not-found
  message and leave the database as it was when no stock cell exists for the product, the
  size and the colour as the two functions normalise it: trimmed, and \<open>DEFAULT\<close> when it
  is blank or missing.
\<close>

theorem C5_reject:
  "(qty \<le> 0 \<longrightarrow>
      carica_stock_colore now db cod c t qty = (Inl (ValueError Quantita_carico_minima), db)
    \<and> scarica_vendita_colore now db cod c t qty = (Inl (ValueError Quantita_scarico_minima), db))
 \<and> (1 \<le> qty \<and> select_quantita (taglie_prodotti db) cod (colore_o_default c) t = None \<longrightarrow>
      carica_stock_colore now db cod c t qty = (Inl (ValueError Taglia_non_trovata), db)
    \<and> scarica_vendita_colore now db cod c t qty = (Inl (ValueError Taglia_non_trovata), db))"
  by (simp add: carica_stock_colore_def scarica_vendita_colore_def)

text \<open>The example of claim C5: quantities 0 and \<open>-3\<close>, a colour without rows and a size
  without row.\<close>

theorem C5_reject_witness:
  "carica_stock_colore ''t1'' db_esempio ''P1'' (Some ''Blu'') ''42'' 0 = (Inl (ValueError Quantita_carico_minima), db_esempio)
   \<and> scarica_vendita_colore ''t1'' db_esempio ''P1'' (Some ''Blu'') ''42'' (- 3) = (Inl (ValueError Quantita_scarico_minima), db_esempio)
   \<and> carica_stock_colore ''t1'' db_esempio ''P1'' (Some ''Verde'') ''42'' 5 = (Inl (ValueError Taglia_non_trovata), db_esempio)
   \<and> scarica_vendita_colore ''t1'' db_esempio ''P1'' (Some ''Blu'') ''XS'' 5 = (Inl (ValueError Taglia_non_trovata), db_esempio)"
proof -
  have n1: "select_quantita (taglie_prodotti db_esempio) ''P1'' (colore_o_default (Some ''Verde'')) ''42'' = None"
    by code_simp
  have n2: "select_quantita (taglie_prodotti db_esempio) ''P1'' (colore_o_default (Some ''Blu'')) ''XS'' = None"
    by code_simp
  from C5_reject [of 0 "''t1''" db_esempio "''P1''" "Some ''Blu''" "''42''"]
       C5_reject [of "- 3" "''t1''" db_esempio "''P1''" "Some ''Blu''" "''42''"]
       C5_reject [of 5 "''t1''" db_esempio "''P1''" "Some ''Verde''" "''42''"]
       C5_reject [of 5 "''t1''" db_esempio "''P1''" "Some ''Blu''" "''XS''"]
       n1 n2
  show ?thesis by simp
qed

subsection \<open>C6: load, then sell\<close>

text \<open>
  Claim C6 as written holds for every prior quantity and every \<open>qty \<ge> 1\<close>. It fails
  beyond the 64-bit range of an INTEGER of SQLite: in the example, where the cell of
  \<open>Blu\<close> holds 2, the load of 9223372036854775808 raises \<open>OverflowError\<close> and changes
  nothing, and the load of 9223372036854775807 returns 9223372036854775808, the REAL
  that SQLite stores for the sum, which is 9223372036854775809. It also fails for a
  negative prior quantity, which \<open>aggiorna_taglia_colore\<close> can write: with \<open>-5\<close> in the
  cell, the load of 3 returns \<open>-2\<close> and the sale of 3 that follows is refused.
\<close>

theorem C6_roundtrip_counterexample:
  "quantita_cella db_esempio ''P1'' ''Blu'' ''42'' = Some 2
   \<and> carica_stock_colore ''t1'' db_esempio ''P1'' (Some ''Blu'') ''42'' 9223372036854775808
        = (Inl OverflowError, db_esempio)
   \<and> fst (carica_stock_colore ''t1'' db_esempio ''P1'' (Some ''Blu'') ''42'' 9223372036854775807)
        = Inr 9223372036854775808
   \<and> quantita_cella db_negativo ''P1'' ''Blu'' ''42'' = Some (- 5)
   \<and> fst (carica_stock_colore ''t1'' db_negativo ''P1'' (Some ''Blu'') ''42'' 3) = Inr (- 2)
   \<and> fst (scarica_vendita_colore ''t2'' (snd (carica_stock_colore ''t1'' db_negativo ''P1'' (Some ''Blu'') ''42'' 3))
             ''P1'' (Some ''Blu'') ''42'' 3)
        = Inl (ValueError (Stock_insufficiente (- 2) 3))"
  by code_simp

text \<open>
  Claim C6, as amended. For an existing stock cell whose prior quantity \<open>q\<close> is an
  INTEGER and every \<open>qty\<close> from 1 to \<open>2^63 - 1\<close> with \<open>q + qty \<le> 2^63 - 1\<close>, the load
  returns \<open>q + qty\<close> and the cell holds \<open>q + qty\<close>. When \<open>q\<close> is not negative, the sale
  of the same \<open>qty\<close> that follows returns \<open>q\<close> and the cell holds \<open>q\<close> again; when \<open>q\<close>
  is negative, that sale is refused for insufficient stock and changes nothing. As in C1
  the cell of a colour argument is the one under its normalised label. Lemma
  \<open>carica_scarica_tabella\<close> adds that the whole stock table is restored when the cell is
  a single row.
\<close>

theorem C6_roundtrip:
  assumes "1 \<le> qty" and "qty \<le> 2 ^ 63 - 1" and "- (2 ^ 63) \<le> q" and "q + qty \<le> 2 ^ 63 - 1"
    and "quantita_cella db cod (colore_o_default c) t = Some q"
  shows "fst (carica_stock_colore now db cod c t qty) = Inr (q + qty)
       \<and> quantita_cella (snd (carica_stock_colore now db cod c t qty)) cod (colore_o_default c) t = Some (q + qty)
       \<and> (0 \<le> q \<longrightarrow>
            fst (scarica_vendita_colore now' (snd (carica_stock_colore now db cod c t qty)) cod c t qty) = Inr q
          \<and> quantita_cella (snd (scarica_vendita_colore now' (snd (carica_stock_colore now db cod c t qty)) cod c t qty))
               cod (colore_o_default c) t = Some q)
       \<and> (q < 0 \<longrightarrow>
            scarica_vendita_colore now' (snd (carica_stock_colore now db cod c t qty)) cod c t qty
              = (Inl (ValueError (Stock_insufficiente (q + qty) qty)), snd (carica_stock_colore now db cod c t qty)))"
proof -
  let ?db1 = "snd (carica_stock_colore now db cod c t qty)"
  have l: "fst (carica_stock_colore now db cod c t qty) = Inr (q + qty)"
          "quantita_cella ?db1 cod (colore_o_default c) t = Some (q + qty)"
    using carica_ok [OF assms] by simp_all
  have pos: "fst (scarica_vendita_colore now' ?db1 cod c t qty) = Inr q
           \<and> quantita_cella (snd (scarica_vendita_colore now' ?db1 cod c t qty)) cod (colore_o_default c) t = Some q"
    if "0 \<le> q"
  proof -
    have "qty \<le> q + qty" using that by simp
    from scarica_ok [OF assms(1) l(2) this assms(4), of now'] show ?thesis by auto
  qed
  have neg: "scarica_vendita_colore now' ?db1 cod c t qty
               = (Inl (ValueError (Stock_insufficiente (q + qty) qty)), ?db1)"
    if "q < 0"
  proof -
    have "q + qty < qty" using that by simp
    with assms(1) l(2) show ?thesis by (rule scarica_insufficiente)
  qed
  from l pos neg show ?thesis by blast
qed

text \<open>The example of claim C6: 5 loaded on 2 and sold again; 3 loaded on \<open>-5\<close> and the
  sale of 3 refused.\<close>

theorem C6_roundtrip_witness:
  "fst (carica_stock_colore ''t1'' db_esempio ''P1'' (Some ''Blu'') ''42'' 5) = Inr 7
   \<and> fst (scarica_vendita_colore ''t2'' (snd (carica_stock_colore ''t1'' db_esempio ''P1'' (Some ''Blu'') ''42'' 5)) ''P1'' (Some ''Blu'') ''42'' 5) = Inr 2
   \<and> quantita_cella (snd (scarica_vendita_colore ''t2'' (snd (carica_stock_colore ''t1'' db_esempio ''P1'' (Some ''Blu'') ''42'' 5)) ''P1'' (Some ''Blu'') ''42'' 5))
        ''P1'' ''Blu'' ''42'' = Some 2
   \<and> fst (carica_stock_colore ''t1'' db_negativo ''P1'' (Some ''Blu'') ''42'' 3) = Inr (- 2)
   \<and> scarica_vendita_colore ''t2'' (snd (carica_stock_colore ''t1'' db_negativo ''P1'' (Some ''Blu'') ''42'' 3)) ''P1'' (Some ''Blu'') ''42'' 3
        = (Inl (ValueError (Stock_insufficiente (- 2) 3)), snd (carica_stock_colore ''t1'' db_negativo ''P1'' (Some ''Blu'') ''42'' 3))"
proof -
  have blu: "colore_o_default (Some ''Blu'') = ''Blu''" by code_simp
  have q: "quantita_cella db_esempio ''P1'' (colore_o_default (Some ''Blu'')) ''42'' = Some 2"
    by code_simp
  have n: "quantita_cella db_negativo ''P1'' (colore_o_default (Some ''Blu'')) ''42'' = Some (- 5)"
    by code_simp
  have a: "(1::int) \<le> 5" "(5::int) \<le> 2 ^ 63 - 1" "- (2 ^ 63) \<le> (2::int)" "(2::int) + 5 \<le> 2 ^ 63 - 1"
    by simp_all
  have b: "(1::int) \<le> 3" "(3::int) \<le> 2 ^ 63 - 1" "- (2 ^ 63) \<le> (- 5::int)" "(- 5::int) + 3 \<le> 2 ^ 63 - 1"
    by simp_all
  from C6_roundtrip [OF a q, where now = "''t1''" and now' = "''t2''"]
       C6_roundtrip [OF b n, where now = "''t1''" and now' = "''t2''"]
  show ?thesis by (simp add: blu)
qed

subsection \<open>C7: the migration of the legacy colour\<close>

text \<open>
  Claim C7, for a pass in which no statement fails. For every product the colour derived
  from the legacy column (trimmed, \<open>DEFAULT\<close> when blank or \<open>NULL\<close>) is registered after
  the pass; the colours registered before are all kept, in place, and no pair of product
  and colour is registered twice if none was; a stock row keeps everything but its
  colour, and its colour changes only when it is \<open>NULL\<close> or blank and the product of the
  row exists, to the colour derived for that product; and a second pass changes nothing.
\<close>

theorem C7_migration:
  "(\<forall>p \<in> set (prodotti db).
      colore_o_default (Some (or_empty (colore_legacy p)))
        \<in> colori_registrati (migrazione_dati nessun_guasto db) (codice p))
   \<and> (\<exists>nuovi. colori_prodotti (migrazione_dati nessun_guasto db) = colori_prodotti db @ nuovi)
   \<and> (distinct (colori_prodotti db) \<longrightarrow> distinct (colori_prodotti (migrazione_dati nessun_guasto db)))
   \<and> taglie_prodotti (migrazione_dati nessun_guasto db)
        = map (\<lambda>r. if colore_vuoto (colore r)
                    then (case get_prodotto db (codice_prodotto r) of
                            None \<Rightarrow> r
                          | Some p \<Rightarrow> r\<lparr>colore := Some (colore_o_default (Some (or_empty (colore_legacy p))))\<rparr>)
                    else r)
              (taglie_prodotti db)
   \<and> migrazione_dati nessun_guasto (migrazione_dati nessun_guasto db) = migrazione_dati nessun_guasto db"
proof (intro conjI)
  define righe where "righe = map (\<lambda>p. (codice p, or_empty (colore_legacy p))) (prodotti db)"
  define cs' where "cs' = fst (the (migra_prodotti nessun_guasto righe (colori_prodotti db) (taglie_prodotti db)))"
  define ts' where "ts' = snd (the (migra_prodotti nessun_guasto righe (colori_prodotti db) (taglie_prodotti db)))"
  have cs: "colori_prodotti (migrazione_dati nessun_guasto db) = cs'"
    and ts: "taglie_prodotti (migrazione_dati nessun_guasto db) = ts'"
    and ps: "prodotti (migrazione_dati nessun_guasto db) = prodotti db"
    by (simp_all add: migrazione_dati_campi cs'_def ts'_def righe_def)
  have reg: "\<exists>r \<in> set cs'. cp_codice_prodotto r = fst x \<and> cp_colore r = colore_o_default (Some (snd x))"
    if "x \<in> set righe" for x
    using that migra_prodotti_registra [of "fst x" "snd x" righe "colori_prodotti db" "taglie_prodotti db"]
    unfolding cs'_def by simp
  show "\<forall>p \<in> set (prodotti db).
      colore_o_default (Some (or_empty (colore_legacy p)))
        \<in> colori_registrati (migrazione_dati nessun_guasto db) (codice p)"
  proof
    fix p assume "p \<in> set (prodotti db)"
    then have "(codice p, or_empty (colore_legacy p)) \<in> set righe" by (simp add: righe_def)
    from reg [OF this] show "colore_o_default (Some (or_empty (colore_legacy p)))
        \<in> colori_registrati (migrazione_dati nessun_guasto db) (codice p)"
      by (force simp: colori_registrati_def cs)
  qed
  show "\<exists>nuovi. colori_prodotti (migrazione_dati nessun_guasto db) = colori_prodotti db @ nuovi"
    unfolding cs cs'_def by (rule migra_prodotti_colori_append)
  show "distinct (colori_prodotti db) \<longrightarrow> distinct (colori_prodotti (migrazione_dati nessun_guasto db))"
    unfolding cs cs'_def by (simp add: migra_prodotti_distinct)
  have map_ts: "ts' = map (\<lambda>r. if colore_vuoto (colore r)
                    then (case find (\<lambda>x. fst x = codice_prodotto r) righe of
                            None \<Rightarrow> r
                          | Some x \<Rightarrow> r\<lparr>colore := Some (colore_o_default (Some (snd x)))\<rparr>)
                    else r)
              (taglie_prodotti db)"
    unfolding ts'_def by (rule migra_prodotti_taglie)
  show "taglie_prodotti (migrazione_dati nessun_guasto db)
        = map (\<lambda>r. if colore_vuoto (colore r)
                    then (case get_prodotto db (codice_prodotto r) of
                            None \<Rightarrow> r
                          | Some p \<Rightarrow> r\<lparr>colore := Some (colore_o_default (Some (or_empty (colore_legacy p))))\<rparr>)
                    else r)
              (taglie_prodotti db)"
    unfolding ts map_ts
    by (rule map_cong) (auto simp: righe_def find_righe get_prodotto_def split: option.splits)
  have pieno: "\<not> colore_vuoto (colore r)" if "r \<in> set ts'" "x \<in> set righe" "codice_prodotto r = fst x" for r x
  proof -
    from that(1) obtain r0 where r0: "r0 \<in> set (taglie_prodotti db)"
      "r = (if colore_vuoto (colore r0)
                    then (case find (\<lambda>x. fst x = codice_prodotto r0) righe of
                            None \<Rightarrow> r0
                          | Some x \<Rightarrow> r0\<lparr>colore := Some (colore_o_default (Some (snd x)))\<rparr>)
                    else r0)"
      unfolding map_ts by auto
    show ?thesis
    proof (cases "colore_vuoto (colore r0)")
      case False
      with r0(2) show ?thesis by simp
    next
      case True
      with r0(2) have cod: "codice_prodotto r = codice_prodotto r0"
        by (simp split: option.splits)
      have "find (\<lambda>x. fst x = codice_prodotto r0) righe \<noteq> None"
      proof
        assume "find (\<lambda>x. fst x = codice_prodotto r0) righe = None"
        then have "\<forall>y \<in> set righe. fst y \<noteq> codice_prodotto r0"
          unfolding find_None_iff by blast
        with that(2,3) cod show False by auto
      qed
      then obtain y where "find (\<lambda>x. fst x = codice_prodotto r0) righe = Some y" by blast
      with True r0(2) show ?thesis by (simp add: colore_o_default_non_vuoto)
    qed
  qed
  have "migra_prodotti nessun_guasto righe cs' ts' = Some (cs', ts')"
    by (rule migra_prodotti_fermo) (use reg pieno in blast)+
  then show "migrazione_dati nessun_guasto (migrazione_dati nessun_guasto db) = migrazione_dati nessun_guasto db"
    unfolding migrazione_dati_def [of nessun_guasto "migrazione_dati nessun_guasto db"]
    unfolding ps cs ts
    by (simp add: righe_def [symmetric] Let_def cs [symmetric] ts [symmetric])
qed

text \<open>The example of claim C7: the legacy database, where the row that is already
  \<open>Verde\<close> stays \<open>Verde\<close>.\<close>

theorem C7_migration_witness:
  "colori_registrati (migrazione_dati nessun_guasto db_legacy) ''P1'' = {''Rosso''}
   \<and> map colore (taglie_prodotti (migrazione_dati nessun_guasto db_legacy))
        = [Some ''Rosso'', Some ''Rosso'', Some ''Verde'', Some ''DEFAULT'']
   \<and> migrazione_dati nessun_guasto (migrazione_dati nessun_guasto db_legacy) = migrazione_dati nessun_guasto db_legacy"
proof -
  have a: "colori_registrati (migrazione_dati nessun_guasto db_legacy) ''P1'' = {''Rosso''}"
    by code_simp
  have b: "map colore (taglie_prodotti (migrazione_dati nessun_guasto db_legacy))
        = [Some ''Rosso'', Some ''Rosso'', Some ''Verde'', Some ''DEFAULT'']"
    by code_simp
  from C7_migration [of db_legacy] a b show ?thesis by simp
qed

subsection \<open>C8: a failure during the migration\<close>




subsection \<open>C9: listing the colours\<close>

text \<open>
  Claim C9 says that \<open>lista_colori\<close> returns the registered colours in case-insensitive
  order without \<open>DEFAULT\<close>. The function returns nothing: for every database and every
  product it raises \<open>UnboundLocalError\<close>.
\<close>

theorem C9_lista_colori: "lista_colori db cod = Inl UnboundLocalError"
  by (simp add: lista_colori_def)

subsection \<open>C10: renaming a colour\<close>

text \<open>
  Claim C10 says that renaming a colour onto a registered one leaves at most one stock
  cell for each size of the target. The rest of the claim holds (\<open>rinomina_colore_fusione\<close>
  and \<open>rinomina_colore_sul_posto\<close> above); this part fails. In the example \<open>Rosso\<close> and
  \<open>Blu\<close> are registered and each has one row of size 42. Renaming \<open>Rosso\<close> to \<open>Blu\<close> leaves
  two rows for \<open>Blu\<close> and size 42, with quantities 3 and 2.
\<close>

theorem C10_rinomina_colore:
  "length (filter (cella ''P1'' ''Blu'' ''42'') (taglie_prodotti db_esempio)) = 1
   \<and> length (filter (cella ''P1'' ''Blu'' ''42'')
        (taglie_prodotti (rinomina_colore ''t1'' db_esempio ''P1'' (Some ''Rosso'') (Some ''Blu'')))) = 2
   \<and> map quantita (filter (cella ''P1'' ''Blu'' ''42'')
        (taglie_prodotti (rinomina_colore ''t1'' db_esempio ''P1'' (Some ''Rosso'') (Some ''Blu'')))) = [Some 3, Some 2]"
  by code_simp

end
